theory Spec2Isabelle
  imports Main
begin

section \<open>Data model\<close>

text \<open>
  The service keeps its records in document collections. A document id (an ObjectId) is
  modelled as a natural number, a timestamp as the number of milliseconds that
  \<^verbatim>\<open>Date.now()\<close> returns, a string as a list of characters. A collection is a list in
  insertion order, so that ``the first document that matches'' is the head of a filter.
  The stamp \<^verbatim>\<open>updated_at\<close>, which the document layer refreshes when it saves, is written
  in the model only where the code assigns it.
\<close>

type_synonym oid = nat
type_synonym time = int

subsection \<open>Message and Reaction (the message schema)\<close>

record reaction =
  emoji :: string
  user_id :: oid
  r_created_at :: time

record message =
  m_id :: oid
  content :: string
  author_id :: oid
  channel_id :: oid
  thread_parent_id :: "oid option"
  file_url :: "string option"
  file_type :: "string option"
  reactions :: "reaction list"
  is_deleted :: bool
  is_edited :: bool
  is_pinned :: bool
  m_created_at :: time
  m_updated_at :: time

subsection \<open>Notification (the notification schema)\<close>

datatype notification_type = Mention | MessageNote | Reply | ChannelInvite

record notification =
  n_id :: oid
  recipient_id :: oid
  sender_id :: oid
  n_type :: notification_type
  n_message_id :: "oid option"
  n_channel_id :: "oid option"
  n_content :: string
  is_read :: bool
  n_created_at :: time

section \<open>Users, channels and the state of the service\<close>

record user =
  u_id :: oid
  display_name :: string
  is_online :: bool
  last_seen :: time
  u_created_at :: time

datatype channel_type = Public | Dm

record channel =
  c_id :: oid
  name :: string
  c_type :: channel_type
  created_by :: oid
  members :: "oid list"
  c_created_at :: time

text \<open>
  A value of a request body (JSON) or of a socket payload where the code does not fix its
  type: a string, a number (the model has the integers), a boolean, an absent value
  (\<^verbatim>\<open>undefined\<close> or \<^verbatim>\<open>null\<close>), or an array or object.
\<close>

datatype request_value = RString string | RNumber int | RBool bool | RAbsent | RObject

text \<open>
  Rooms and the events sent to them (\<^verbatim>\<open>io.to(room).emit(event, payload)\<close>); an event
  carries the id of the message it is about (a reaction event also the emoji as it was
  sent and the user).
\<close>

datatype room = ChannelRoom oid | ThreadRoom oid

datatype event =
    EvMessageNew oid | EvThreadNewReply oid | EvMessageEdited oid
  | EvMessageDeleted oid | EvMessagePinned oid oid | EvMessageUnpinned oid oid
  | EvReactionAdded oid request_value oid

text \<open>
  The state: the four collections, the events emitted so far, and a counter that stands
  for the generation of fresh document ids.
\<close>

record state =
  users :: "user list"
  channels :: "channel list"
  messages :: "message list"
  notifications :: "notification list"
  emitted :: "(room \<times> event) list"
  next_oid :: oid

definition findUserById :: "state \<Rightarrow> oid \<Rightarrow> user option" where
  "findUserById s i = find (\<lambda>u. u_id u = i) (users s)"

definition findChannelById :: "state \<Rightarrow> oid \<Rightarrow> channel option" where
  "findChannelById s i = find (\<lambda>c. c_id c = i) (channels s)"

definition findMessageById :: "state \<Rightarrow> oid \<Rightarrow> message option" where
  "findMessageById s i = find (\<lambda>m. m_id m = i) (messages s)"

text \<open>\<^verbatim>\<open>document.save()\<close> writes the document back under its id.\<close>

fun update_first :: "('a \<Rightarrow> bool) \<Rightarrow> ('a \<Rightarrow> 'a) \<Rightarrow> 'a list \<Rightarrow> 'a list" where
  "update_first P f [] = []"
| "update_first P f (x # xs) = (if P x then f x # xs else x # update_first P f xs)"

definition save_message :: "message \<Rightarrow> state \<Rightarrow> state" where
  "save_message m s =
     s\<lparr>messages := update_first (\<lambda>x. m_id x = m_id m) (\<lambda>x. m) (messages s)\<rparr>"

definition emit :: "room \<Rightarrow> event \<Rightarrow> state \<Rightarrow> state" where
  "emit r e s = s\<lparr>emitted := emitted s @ [(r, e)]\<rparr>"

text \<open>
  The errors the handlers answer with. \<open>statusCode\<close> is the HTTP status the code passes
  to \<^verbatim>\<open>AppError\<close>; \<open>ValidationError\<close> and \<open>DuplicateKey\<close> are thrown by the document
  layer and \<open>TypeError\<close> by the language, they reach the handler's \<^verbatim>\<open>catch\<close> and carry no
  status of their own.
\<close>

datatype error =
    EmptyContent | ContentRequired | TooLong | ChannelNotFound | NotMember
  | AttachmentNotAllowed | ParentNotFound | ThreadDepthExceeded | UploadFailed
  | MessageNotFound | NotAuthor | EditWindowExpired | CannotPinDeleted | NotPinned
  | EmojiRequired | CannotReactDeleted
  | UserNotFound | NotPublic | NotAMember | AlreadyMember | NameRequired | NameInvalid
  | NameTaken | ChannelLimitReached | CannotDeleteGeneral | ValidationError | DuplicateKey
  | TypeError

fun statusCode :: "error \<Rightarrow> nat option" where
  "statusCode EmptyContent = Some 400"
| "statusCode ContentRequired = Some 400"
| "statusCode TooLong = Some 400"
| "statusCode ChannelNotFound = Some 404"
| "statusCode NotMember = Some 403"
| "statusCode AttachmentNotAllowed = Some 400"
| "statusCode ParentNotFound = Some 404"
| "statusCode ThreadDepthExceeded = Some 400"
| "statusCode UploadFailed = Some 500"
| "statusCode MessageNotFound = Some 404"
| "statusCode NotAuthor = Some 403"
| "statusCode EditWindowExpired = Some 400"
| "statusCode CannotPinDeleted = Some 400"
| "statusCode EmojiRequired = Some 400"
| "statusCode CannotReactDeleted = Some 400"
| "statusCode NotPinned = Some 400"
| "statusCode UserNotFound = Some 404"
| "statusCode NotPublic = Some 400"
| "statusCode NotAMember = Some 400"
| "statusCode AlreadyMember = Some 400"
| "statusCode NameRequired = Some 400"
| "statusCode NameInvalid = Some 400"
| "statusCode NameTaken = Some 400"
| "statusCode ChannelLimitReached = Some 400"
| "statusCode CannotDeleteGeneral = Some 400"
| "statusCode ValidationError = None"
| "statusCode DuplicateKey = None"
| "statusCode TypeError = None"

section \<open>Strings as the language sees them\<close>

text \<open>
  \<^verbatim>\<open>String.prototype.trim\<close> strips white space and line terminators from both ends; of
  the code units the model has (0 to 255) those are tab, line feed, vertical tab, form
  feed, carriage return, space and no-break space.
\<close>

definition is_js_space :: "char \<Rightarrow> bool" where
  "is_js_space c \<longleftrightarrow> (of_char c :: nat) \<in> {9, 10, 11, 12, 13, 32, 160}"

definition trim :: "string \<Rightarrow> string" where
  "trim s = rev (dropWhile is_js_space (rev (dropWhile is_js_space s)))"

text \<open>
  \<^verbatim>\<open>!content || content.trim() === ''\<close> for a \<^verbatim>\<open>content\<close> that is absent (\<open>None\<close>) or a
  string: the empty string is falsy.
\<close>

definition blank :: "string option \<Rightarrow> bool" where
  "blank c = (case c of None \<Rightarrow> True | Some t \<Rightarrow> t = [] \<or> trim t = [])"

text \<open>The values a field of a document can hold that the thread check looks at.\<close>

datatype jsval = JUndefined | JNull | JObjectId oid

fun truthy :: "jsval \<Rightarrow> bool" where
  "truthy JUndefined = False"
| "truthy JNull = False"
| "truthy (JObjectId i) = True"

section \<open>Reactions: the methods of the message schema and the HTTP controller\<close>

text \<open>
  The emoji reaches the methods as the request sent it. The schema declares
  \<^verbatim>\<open>emoji: { type: String, required: true }\<close>: a pushed reaction has its emoji cast to a
  string (a string stays, a number and a boolean are printed, an absent value stays
  absent, an array or object is refused), and \<^verbatim>\<open>save()\<close> rejects the document when the
  emoji is absent, refused or the empty string. A number is printed in decimal (the
  model's numbers are the integers that print so).
\<close>

definition digit_char :: "nat \<Rightarrow> char" where
  "digit_char d = char_of (48 + d)"

fun decimal :: "nat \<Rightarrow> string" where
  "decimal n = (if n < 10 then [digit_char n] else decimal (n div 10) @ [digit_char (n mod 10)])"

definition number_toString :: "int \<Rightarrow> string" where
  "number_toString n = (if n < 0 then CHR ''-'' # decimal (nat (- n)) else decimal (nat n))"

fun castString :: "request_value \<Rightarrow> string option" where
  "castString (RString t) = Some t"
| "castString (RNumber n) = Some (number_toString n)"
| "castString (RBool b) = Some (if b then ''true'' else ''false'')"
| "castString RAbsent = None"
| "castString RObject = None"

text \<open>\<^verbatim>\<open>!emoji\<close>: the values that are falsy.\<close>

fun falsy :: "request_value \<Rightarrow> bool" where
  "falsy (RString t) = (t = [])"
| "falsy (RNumber n) = (n = 0)"
| "falsy (RBool b) = (\<not> b)"
| "falsy RAbsent = True"
| "falsy RObject = False"

text \<open>
  \<^verbatim>\<open>reaction.emoji === emoji && reaction.user_id.toString() === userId.toString()\<close>: the
  left side of the first test is the stored string and the right side the value as
  sent, and \<^verbatim>\<open>===\<close> holds only between a string and the same string; both ids are
  ObjectIds, whose string forms are equal exactly when the ids are.
\<close>

definition same_reaction :: "request_value \<Rightarrow> oid \<Rightarrow> reaction \<Rightarrow> bool" where
  "same_reaction e u r \<longleftrightarrow> RString (emoji r) = e \<and> user_id r = u"

text \<open>
  The method \<^verbatim>\<open>addReaction\<close> of a loaded document: when \<^verbatim>\<open>reactions.find\<close> returns an
  entry the document is returned as it is and nothing is saved; otherwise the pair is
  pushed (its \<^verbatim>\<open>created_at\<close> defaults to now) and the document is saved, which throws
  when the pushed emoji does not validate.
\<close>

definition addReaction ::
  "time \<Rightarrow> request_value \<Rightarrow> oid \<Rightarrow> message \<Rightarrow> state \<Rightarrow> (error + message) \<times> state" where
  "addReaction now e u doc s =
     (case find (same_reaction e u) (reactions doc) of
        Some existingReaction \<Rightarrow> (Inr doc, s)
      | None \<Rightarrow>
          (case castString e of
             None \<Rightarrow> (Inl ValidationError, s)
           | Some t \<Rightarrow>
               if t = [] then (Inl ValidationError, s)
               else let m = doc\<lparr>reactions := reactions doc @
                                   [\<lparr>emoji = t, user_id = u, r_created_at = now\<rparr>]\<rparr>
                    in (Inr m, save_message m s)))"

text \<open>
  The method \<^verbatim>\<open>removeReaction\<close>: the array is replaced by its filter, then the document
  is saved.
\<close>

definition removeReaction ::
  "request_value \<Rightarrow> oid \<Rightarrow> message \<Rightarrow> state \<Rightarrow> message \<times> state" where
  "removeReaction e u doc s =
     (let m = doc\<lparr>reactions := filter (\<lambda>r. \<not> same_reaction e u r) (reactions doc)\<rparr>
      in (m, save_message m s))"

text \<open>
  The HTTP controller \<^verbatim>\<open>addReaction\<close>; \<open>e\<close> is \<^verbatim>\<open>req.body.emoji\<close>. The event is emitted
  whether or not the method has pushed.
\<close>

definition addReaction_controller ::
  "time \<Rightarrow> oid \<Rightarrow> oid \<Rightarrow> request_value \<Rightarrow> state \<Rightarrow> (error + message) \<times> state" where
  "addReaction_controller now user i e s =
     (if falsy e then (Inl EmojiRequired, s)
      else case findMessageById s i of
        None \<Rightarrow> (Inl MessageNotFound, s)
      | Some message \<Rightarrow>
          if is_deleted message then (Inl CannotReactDeleted, s)
          else case findChannelById s (channel_id message) of
            None \<Rightarrow> (Inl ChannelNotFound, s)
          | Some channel \<Rightarrow>
              if user \<notin> set (members channel) then (Inl NotMember, s)
              else case addReaction now e user message s of
                (Inl err, s1) \<Rightarrow> (Inl err, s1)
              | (Inr m, s1) \<Rightarrow>
                  (Inr m, emit (ChannelRoom (channel_id m)) (EvReactionAdded (m_id m) e user)
                            s1))"

text \<open>The (emoji, user) pairs of a message, and the invariant that no pair occurs twice.\<close>

definition reaction_pairs :: "message \<Rightarrow> (string \<times> oid) list" where
  "reaction_pairs m = map (\<lambda>r. (emoji r, user_id r)) (reactions m)"

definition unique_reactions :: "message \<Rightarrow> bool" where
  "unique_reactions m \<longleftrightarrow> distinct (reaction_pairs m)"

section \<open>Notifications: marking as read\<close>

text \<open>
  The static \<^verbatim>\<open>markAsRead(recipientId, notificationIds = [])\<close> builds the filter
  \<^verbatim>\<open>{ recipient_id }\<close>, adds \<^verbatim>\<open>_id: { $in: notificationIds }\<close> when the list is not empty,
  and sets \<^verbatim>\<open>is_read\<close> on every document that matches.
\<close>

definition markAsRead_filter :: "oid \<Rightarrow> oid list \<Rightarrow> notification \<Rightarrow> bool" where
  "markAsRead_filter recipientId notificationIds n \<longleftrightarrow>
     recipient_id n = recipientId \<and>
     (if length notificationIds > 0 then n_id n \<in> set notificationIds else True)"

definition markAsRead :: "oid \<Rightarrow> oid list \<Rightarrow> notification list \<Rightarrow> notification list" where
  "markAsRead recipientId notificationIds ns =
     map (\<lambda>n. if markAsRead_filter recipientId notificationIds n
               then n\<lparr>is_read := True\<rparr> else n) ns"

text \<open>
  The controller reads \<^verbatim>\<open>ids\<close> from the request body: \<open>None\<close> stands for a body without
  \<^verbatim>\<open>ids\<close> or with one that is not an array.
\<close>

definition markAsRead_controller ::
  "oid \<Rightarrow> oid list option \<Rightarrow> notification list \<Rightarrow> notification list" where
  "markAsRead_controller user ids ns =
     (case ids of
        Some l \<Rightarrow> if length l > 0 then markAsRead user l ns else markAsRead user [] ns
      | None \<Rightarrow> markAsRead user [] ns)"

section \<open>Creating a message\<close>

text \<open>
  \<^verbatim>\<open>Message.create(data)\<close>: the schema validates the document (\<^verbatim>\<open>content\<close> has
  \<^verbatim>\<open>maxlength\<close> 2000; author and channel are required and given by every caller), fills
  in the defaults, and inserts it under a fresh id.
\<close>

definition new_message ::
  "oid \<Rightarrow> time \<Rightarrow> string \<Rightarrow> oid \<Rightarrow> oid \<Rightarrow> oid option \<Rightarrow> (string \<times> string) option \<Rightarrow> message" where
  "new_message i now c author chan parent upl =
     \<lparr>m_id = i, content = c, author_id = author, channel_id = chan,
      thread_parent_id = parent, file_url = map_option fst upl,
      file_type = map_option snd upl, reactions = [],
      is_deleted = False, is_edited = False, is_pinned = False,
      m_created_at = now, m_updated_at = now\<rparr>"

definition Message_create ::
  "time \<Rightarrow> string \<Rightarrow> oid \<Rightarrow> oid \<Rightarrow> oid option \<Rightarrow> (string \<times> string) option \<Rightarrow> state
     \<Rightarrow> (error + message) \<times> state" where
  "Message_create now c author chan parent upl s =
     (if length c > 2000 then (Inl ValidationError, s)
      else let m = new_message (next_oid s) now c author chan parent upl
           in (Inr m, s\<lparr>messages := messages s @ [m], next_oid := Suc (next_oid s)\<rparr>))"

text \<open>
  The thread check of the HTTP controller. \<^verbatim>\<open>Message.findById\<close> returns the parent with
  its \<^verbatim>\<open>thread_parent_id\<close> as stored: null or an ObjectId (the query does not populate
  the path). The check reads \<^verbatim>\<open>parentMessage.thread_parent_id\<close> and then the property
  \<^verbatim>\<open>thread_parent_id\<close> of that value; an ObjectId has no such property, so the read gives
  \<^verbatim>\<open>undefined\<close>. (On null the second read is not reached: \<^verbatim>\<open>&&\<close> has stopped before.)
\<close>

definition field_thread_parent_id :: "message \<Rightarrow> jsval" where
  "field_thread_parent_id m =
     (case thread_parent_id m of None \<Rightarrow> JNull | Some p \<Rightarrow> JObjectId p)"

fun property_thread_parent_id :: "jsval \<Rightarrow> jsval" where
  "property_thread_parent_id (JObjectId i) = JUndefined"
| "property_thread_parent_id v = JUndefined"

definition depth_limit_reached :: "message \<Rightarrow> bool" where
  "depth_limit_reached parentMessage =
     (if truthy (field_thread_parent_id parentMessage)
      then truthy (property_thread_parent_id (field_thread_parent_id parentMessage))
      else False)"

definition thread_check :: "state \<Rightarrow> oid option \<Rightarrow> error option" where
  "thread_check s parent =
     (case parent of
        None \<Rightarrow> None
      | Some p \<Rightarrow>
          (case findMessageById s p of
             None \<Rightarrow> Some ParentNotFound
           | Some parentMessage \<Rightarrow>
               if depth_limit_reached parentMessage then Some ThreadDepthExceeded else None))"

text \<open>After a message is stored both transports emit the same events.\<close>

definition emit_new_message :: "message \<Rightarrow> state \<Rightarrow> state" where
  "emit_new_message m s =
     (let s1 = emit (ChannelRoom (channel_id m)) (EvMessageNew (m_id m)) s
      in case thread_parent_id m of
           None \<Rightarrow> s1
         | Some p \<Rightarrow> emit (ThreadRoom p) (EvThreadNewReply (m_id m)) s1)"

text \<open>
  The HTTP controller \<^verbatim>\<open>createMessage\<close>. \<open>user\<close> is \<^verbatim>\<open>req.user._id\<close>, \<open>file\<close> the
  uploaded file if any, \<open>upload\<close> the attachment store (\<open>None\<close> when the upload fails,
  otherwise the url and the format).
\<close>

definition createMessage ::
  "('f \<Rightarrow> (string \<times> string) option) \<Rightarrow> time \<Rightarrow> oid \<Rightarrow> string option \<Rightarrow> oid \<Rightarrow> oid option
     \<Rightarrow> 'f option \<Rightarrow> state \<Rightarrow> (error + message) \<times> state" where
  "createMessage upload now user c chan parent file s =
     (if blank c \<and> file = None then (Inl EmptyContent, s)
      else if (case c of None \<Rightarrow> False | Some t \<Rightarrow> t \<noteq> [] \<and> length t > 2000)
      then (Inl TooLong, s)
      else case findChannelById s chan of
        None \<Rightarrow> (Inl ChannelNotFound, s)
      | Some channel \<Rightarrow>
          if user \<notin> set (members channel) then (Inl NotMember, s)
          else if file \<noteq> None \<and> c_type channel \<noteq> Dm then (Inl AttachmentNotAllowed, s)
          else case thread_check s parent of
            Some e \<Rightarrow> (Inl e, s)
          | None \<Rightarrow>
              (case (case file of None \<Rightarrow> Some None
                     | Some f \<Rightarrow> map_option Some (upload f)) of
                 None \<Rightarrow> (Inl UploadFailed, s)
               | Some upl \<Rightarrow>
                   (case Message_create now (case c of None \<Rightarrow> [] | Some t \<Rightarrow> t)
                           user chan parent upl s of
                      (Inl e, s1) \<Rightarrow> (Inl e, s1)
                    | (Inr m, s1) \<Rightarrow> (Inr m, emit_new_message m s1))))"

text \<open>The parent of the parent of a message, looked up in the stored messages.\<close>

definition grandparent :: "state \<Rightarrow> message \<Rightarrow> oid option" where
  "grandparent s m =
     Option.bind (thread_parent_id m)
       (\<lambda>p. Option.bind (findMessageById s p) thread_parent_id)"

section \<open>Mentions\<close>

text \<open>
  \<^verbatim>\<open>message.content.match(/@(\w+)/g) || []\<close>: the matches from left to right, each an
  \<^verbatim>\<open>@\<close> with the longest run of word characters after it; the search goes on behind a
  match, and one character further where there is none.
\<close>

definition is_word_char :: "char \<Rightarrow> bool" where
  "is_word_char c \<longleftrightarrow>
     (let n = (of_char c :: nat)
      in (48 \<le> n \<and> n \<le> 57) \<or> (65 \<le> n \<and> n \<le> 90) \<or> n = 95 \<or> (97 \<le> n \<and> n \<le> 122))"

function match_mentions :: "string \<Rightarrow> string list" where
  "match_mentions [] = []"
| "match_mentions (c # cs) =
     (if c = CHR ''@'' \<and> takeWhile is_word_char cs \<noteq> []
      then (c # takeWhile is_word_char cs) # match_mentions (dropWhile is_word_char cs)
      else match_mentions cs)"
  by pat_completeness auto
termination
  by (relation "measure length") (auto simp: length_dropWhile_le less_Suc_eq_le)

text \<open>
  \<^verbatim>\<open>User.findOne({ display_name: { $regex: new RegExp(`^${username}$`, 'i') } })\<close>: the
  name consists of word characters, so the pattern has no operator in it and matches the
  display names equal to it up to the case of the letters A to Z; the schema trims
  display names. The first such user of the collection is returned.
\<close>

definition lower_char :: "char \<Rightarrow> char" where
  "lower_char c =
     (let n = (of_char c :: nat) in if 65 \<le> n \<and> n \<le> 90 then char_of (n + 32) else c)"

definition matches_ci :: "string \<Rightarrow> string \<Rightarrow> bool" where
  "matches_ci username d \<longleftrightarrow> map lower_char username = map lower_char d"

definition findUserByDisplayName :: "state \<Rightarrow> string \<Rightarrow> user option" where
  "findUserByDisplayName s username = find (\<lambda>u. matches_ci username (display_name u)) (users s)"

text \<open>
  What \<^verbatim>\<open>message.author_id\<close> holds on the document handed to \<^verbatim>\<open>processMentions\<close>: the
  id as stored, or, after \<^verbatim>\<open>message.populate('author_id', ...)\<close>, the author's document
  (null when no such user exists). Its \<^verbatim>\<open>toString()\<close> is the id in hexadecimal for an id
  and the printed document for a document; on null the call throws. Where an id is
  expected (\<^verbatim>\<open>User.findById\<close>, \<^verbatim>\<open>sender_id\<close>) a document is cast to its \<^verbatim>\<open>_id\<close>.
\<close>

datatype author_field = AuthorId oid | AuthorDoc user | AuthorNull

datatype printed = IdString oid | DocString user

fun author_toString :: "author_field \<Rightarrow> printed option" where
  "author_toString (AuthorId i) = Some (IdString i)"
| "author_toString (AuthorDoc u) = Some (DocString u)"
| "author_toString AuthorNull = None"

fun author_cast :: "author_field \<Rightarrow> oid option" where
  "author_cast (AuthorId i) = Some i"
| "author_cast (AuthorDoc u) = Some (u_id u)"
| "author_cast AuthorNull = None"

definition populate_author :: "state \<Rightarrow> message \<Rightarrow> author_field" where
  "populate_author s m =
     (case findUserById s (author_id m) of None \<Rightarrow> AuthorNull | Some u \<Rightarrow> AuthorDoc u)"

definition createNotification ::
  "time \<Rightarrow> oid \<Rightarrow> oid \<Rightarrow> notification_type \<Rightarrow> oid \<Rightarrow> oid \<Rightarrow> string \<Rightarrow> state \<Rightarrow> state" where
  "createNotification now recipient sender t msg chan text s =
     s\<lparr>notifications := notifications s @
          [\<lparr>n_id = next_oid s, recipient_id = recipient, sender_id = sender, n_type = t,
            n_message_id = Some msg, n_channel_id = Some chan, n_content = text,
            is_read = False, n_created_at = now\<rparr>],
       next_oid := Suc (next_oid s)\<rparr>"

text \<open>
  The loop of \<^verbatim>\<open>processMentions\<close> over the matches. An exception (the \<^verbatim>\<open>toString\<close> of a
  null author, the \<^verbatim>\<open>display_name\<close> of a sender that was not found) leaves the loop
  through the \<^verbatim>\<open>catch\<close> around it, with the notifications created so far. The mail that
  follows each notification is a stub that only logs.
\<close>

fun mentions_loop :: "time \<Rightarrow> author_field \<Rightarrow> message \<Rightarrow> string list \<Rightarrow> state \<Rightarrow> state" where
  "mentions_loop now a m [] s = s"
| "mentions_loop now a m (mention # rest) s =
     (let username = drop 1 mention in
      case findUserByDisplayName s username of
        None \<Rightarrow> mentions_loop now a m rest s
      | Some user \<Rightarrow>
          (case author_toString a of
             None \<Rightarrow> s
           | Some printed_author \<Rightarrow>
               if IdString (u_id user) \<noteq> printed_author
               then (case author_cast a of
                       None \<Rightarrow> s
                     | Some author \<Rightarrow>
                         (case findUserById s author of
                            None \<Rightarrow> s
                          | Some sender \<Rightarrow>
                              mentions_loop now a m rest
                                (createNotification now (u_id user) author Mention (m_id m)
                                   (channel_id m)
                                   (display_name sender @ '' mentioned you in a message'')
                                   s)))
               else mentions_loop now a m rest s))"

definition processMentions :: "time \<Rightarrow> author_field \<Rightarrow> message \<Rightarrow> state \<Rightarrow> state" where
  "processMentions now a m s =
     (let mentions = match_mentions (content m)
      in if length mentions = 0 then s else mentions_loop now a m mentions s)"

section \<open>What mention processing is measured against\<close>

text \<open>
  The user a match resolves to, the notifications a run has added, the properties every
  notification that \<^verbatim>\<open>processMentions\<close> creates for a message has, and the recipient a
  match leads to for the printed author \<open>pa\<close> (none when the match resolves to nobody or
  the resolved id prints as the author does).
\<close>

definition resolve_mention :: "state \<Rightarrow> string \<Rightarrow> oid option" where
  "resolve_mention s mention = map_option u_id (findUserByDisplayName s (drop 1 mention))"

definition new_notifications :: "state \<Rightarrow> state \<Rightarrow> notification list" where
  "new_notifications s s' = drop (length (notifications s)) (notifications s')"

definition is_mention_of :: "oid \<Rightarrow> message \<Rightarrow> notification \<Rightarrow> bool" where
  "is_mention_of aid m n \<longleftrightarrow>
     n_type n = Mention \<and> sender_id n = aid \<and> n_message_id n = Some (m_id m) \<and>
     n_channel_id n = Some (channel_id m) \<and> \<not> is_read n"

definition mention_target :: "state \<Rightarrow> printed \<Rightarrow> string \<Rightarrow> oid option" where
  "mention_target s pa t =
     (case resolve_mention s t of
        None \<Rightarrow> None
      | Some r \<Rightarrow> if IdString r \<noteq> pa then Some r else None)"

section \<open>The live connection: sending a message\<close>

text \<open>
  The handler of \<^verbatim>\<open>message:send\<close>: it creates the message for the socket's user,
  populates the author (\<^verbatim>\<open>await message.populate('author_id', ...)\<close>, as the HTTP
  controllers do), emits the events, runs \<^verbatim>\<open>processMentions\<close> on the populated document
  and acknowledges. \<open>c\<close> is \<^verbatim>\<open>data.content\<close> (\<open>None\<close> when absent). No channel and no
  parent message is read.
\<close>

definition message_send ::
  "time \<Rightarrow> oid \<Rightarrow> string option \<Rightarrow> oid \<Rightarrow> oid option \<Rightarrow> state \<Rightarrow> (error + message) \<times> state" where
  "message_send now user c chan parent s =
     (case Message_create now (case c of None \<Rightarrow> [] | Some t \<Rightarrow> t) user chan parent None s of
        (Inl e, s1) \<Rightarrow> (Inl e, s1)
      | (Inr m, s1) \<Rightarrow>
          (Inr m, processMentions now (populate_author s1 m) m (emit_new_message m s1)))"

section \<open>Editing and pinning a message (HTTP controllers)\<close>

text \<open>
  \<^verbatim>\<open>canBeEdited\<close>: created later than five minutes before now, and not deleted.
\<close>

definition canBeEdited :: "time \<Rightarrow> message \<Rightarrow> bool" where
  "canBeEdited now m =
     (let fiveMinutesAgo = now - 5 * 60 * 1000
      in m_created_at m > fiveMinutesAgo \<and> \<not> is_deleted m)"

definition editMessage ::
  "time \<Rightarrow> oid \<Rightarrow> oid \<Rightarrow> string option \<Rightarrow> state \<Rightarrow> (error + message) \<times> state" where
  "editMessage now user i c s =
     (if blank c then (Inl ContentRequired, s)
      else case c of
        None \<Rightarrow> (Inl ContentRequired, s)
      | Some t \<Rightarrow>
          if length t > 2000 then (Inl TooLong, s)
          else case findMessageById s i of
            None \<Rightarrow> (Inl MessageNotFound, s)
          | Some message \<Rightarrow>
              if author_id message \<noteq> user then (Inl NotAuthor, s)
              else if \<not> canBeEdited now message then (Inl EditWindowExpired, s)
              else let m = message\<lparr>content := t, is_edited := True, m_updated_at := now\<rparr>
                   in (Inr m, emit (ChannelRoom (channel_id m)) (EvMessageEdited (m_id m))
                                (save_message m s)))"

text \<open>\<^verbatim>\<open>deleteMessage\<close>: a soft delete by the author; the flag is set and the content replaced.\<close>

definition deleteMessage :: "oid \<Rightarrow> oid \<Rightarrow> state \<Rightarrow> (error + unit) \<times> state" where
  "deleteMessage user i s =
     (case findMessageById s i of
        None \<Rightarrow> (Inl MessageNotFound, s)
      | Some message \<Rightarrow>
          if author_id message \<noteq> user then (Inl NotAuthor, s)
          else let m = message\<lparr>is_deleted := True,
                                content := ''[This message has been deleted]''\<rparr>
               in (Inr (), emit (ChannelRoom (channel_id m)) (EvMessageDeleted i)
                             (save_message m s)))"

definition pinMessage :: "oid \<Rightarrow> oid \<Rightarrow> state \<Rightarrow> (error + message) \<times> state" where
  "pinMessage user i s =
     (case findMessageById s i of
        None \<Rightarrow> (Inl MessageNotFound, s)
      | Some message \<Rightarrow>
          if is_deleted message then (Inl CannotPinDeleted, s)
          else case findChannelById s (channel_id message) of
            None \<Rightarrow> (Inl ChannelNotFound, s)
          | Some channel \<Rightarrow>
              if user \<notin> set (members channel) then (Inl NotMember, s)
              else let m = message\<lparr>is_pinned := True\<rparr>
                   in (Inr m, emit (ChannelRoom (channel_id m)) (EvMessagePinned (m_id m) user)
                                (save_message m s)))"

definition unpinMessage :: "oid \<Rightarrow> oid \<Rightarrow> state \<Rightarrow> (error + unit) \<times> state" where
  "unpinMessage user i s =
     (case findMessageById s i of
        None \<Rightarrow> (Inl MessageNotFound, s)
      | Some message \<Rightarrow>
          if \<not> is_pinned message then (Inl NotPinned, s)
          else case findChannelById s (channel_id message) of
            None \<Rightarrow> (Inl ChannelNotFound, s)
          | Some channel \<Rightarrow>
              if user \<notin> set (members channel) then (Inl NotMember, s)
              else let m = message\<lparr>is_pinned := False\<rparr>
                   in (Inr (), emit (ChannelRoom (channel_id m)) (EvMessageUnpinned (m_id m) user)
                                 (save_message m s)))"

section \<open>Presence (the live connection)\<close>

text \<open>
  \<^verbatim>\<open>updateUserStatus\<close> writes the flag and the time of the write on the user's document.
\<close>

definition updateUserStatus :: "time \<Rightarrow> oid \<Rightarrow> bool \<Rightarrow> state \<Rightarrow> state" where
  "updateUserStatus now userId isOnline s =
     s\<lparr>users := update_first (\<lambda>u. u_id u = userId)
                   (\<lambda>u. u\<lparr>is_online := isOnline, last_seen := now\<rparr>) (users s)\<rparr>"

text \<open>
  The server's connections (kept by the socket library): each has an id, the user it was
  authenticated for, and the rooms it joined. On connection the handler sets the user's
  status, then joins the rooms of the channels the user is a member of; on disconnect it
  sets the status again and the connection is gone.
\<close>

record socket =
  socket_id :: nat
  socket_user :: oid
  rooms :: "room list"

record server =
  store :: state
  sockets :: "socket list"

definition joinUserChannels :: "state \<Rightarrow> oid \<Rightarrow> room list" where
  "joinUserChannels s user =
     map (\<lambda>c. ChannelRoom (c_id c)) (filter (\<lambda>c. user \<in> set (members c)) (channels s))"

definition on_connection :: "time \<Rightarrow> nat \<Rightarrow> oid \<Rightarrow> server \<Rightarrow> server" where
  "on_connection now sid user srv =
     (let s1 = updateUserStatus now user True (store srv)
      in srv\<lparr>store := s1,
              sockets := sockets srv @
                [\<lparr>socket_id = sid, socket_user = user, rooms = joinUserChannels s1 user\<rparr>]\<rparr>)"

definition on_disconnect :: "time \<Rightarrow> nat \<Rightarrow> server \<Rightarrow> server" where
  "on_disconnect now sid srv =
     (case find (\<lambda>k. socket_id k = sid) (sockets srv) of
        None \<Rightarrow> srv
      | Some k \<Rightarrow>
          srv\<lparr>store := updateUserStatus now (socket_user k) False (store srv),
              sockets := filter (\<lambda>k. socket_id k \<noteq> sid) (sockets srv)\<rparr>)"

text \<open>The number of connections a user holds.\<close>

definition session_count :: "server \<Rightarrow> oid \<Rightarrow> nat" where
  "session_count srv u = length (filter (\<lambda>k. socket_user k = u) (sockets srv))"

section \<open>Channels\<close>

text \<open>
  An ObjectId prints as 24 hexadecimal digits (it has twelve bytes); that is the string
  a template literal puts in for it.
\<close>

definition hex_digit :: "nat \<Rightarrow> char" where
  "hex_digit d = (if d < 10 then char_of (48 + d) else char_of (87 + d))"

fun hex_digits :: "nat \<Rightarrow> nat \<Rightarrow> string" where
  "hex_digits 0 n = []"
| "hex_digits (Suc k) n = hex_digits k (n div 16) @ [hex_digit (n mod 16)]"

definition oid_str :: "oid \<Rightarrow> string" where
  "oid_str i = hex_digits 24 i"

text \<open>
  \<^verbatim>\<open>Channel.create(data)\<close>. The schema trims and lower-cases the name and validates it:
  required, at least 3 and at most 50 characters, matching \<^verbatim>\<open>/^[a-z0-9-_]+$/\<close>; the type
  is one of \<^verbatim>\<open>'public'\<close> and \<^verbatim>\<open>'dm'\<close>. The name has a unique index. The pre-save hook
  adds the creator to the members when not among them.
\<close>

definition is_name_char :: "char \<Rightarrow> bool" where
  "is_name_char c \<longleftrightarrow>
     (let n = (of_char c :: nat)
      in (97 \<le> n \<and> n \<le> 122) \<or> (48 \<le> n \<and> n \<le> 57) \<or> n = 45 \<or> n = 95)"

definition nameRegex_test :: "string \<Rightarrow> bool" where
  "nameRegex_test nm \<longleftrightarrow> nm \<noteq> [] \<and> list_all is_name_char nm"

definition toLowerCase :: "string \<Rightarrow> string" where
  "toLowerCase t = map lower_char t"

definition parse_type :: "string \<Rightarrow> channel_type option" where
  "parse_type t = (if t = ''public'' then Some Public else if t = ''dm'' then Some Dm else None)"

definition Channel_create ::
  "time \<Rightarrow> string \<Rightarrow> string \<Rightarrow> oid \<Rightarrow> oid list \<Rightarrow> state \<Rightarrow> (error + channel) \<times> state" where
  "Channel_create now nm ty creator ms s =
     (let nm1 = toLowerCase (trim nm) in
      if nm1 = [] \<or> length nm1 < 3 \<or> length nm1 > 50 \<or> \<not> nameRegex_test nm1
      then (Inl ValidationError, s)
      else case parse_type ty of
        None \<Rightarrow> (Inl ValidationError, s)
      | Some t \<Rightarrow>
          if \<exists>c \<in> set (channels s). name c = nm1 then (Inl DuplicateKey, s)
          else let c = \<lparr>c_id = next_oid s, name = nm1, c_type = t, created_by = creator,
                         members = (if creator \<notin> set ms then ms @ [creator] else ms),
                         c_created_at = now\<rparr>
               in (Inr c, s\<lparr>channels := channels s @ [c], next_oid := Suc (next_oid s)\<rparr>))"

definition save_channel :: "channel \<Rightarrow> state \<Rightarrow> state" where
  "save_channel c s =
     s\<lparr>channels := update_first (\<lambda>x. c_id x = c_id c) (\<lambda>x. c) (channels s)\<rparr>"

fun delete_first :: "('a \<Rightarrow> bool) \<Rightarrow> 'a list \<Rightarrow> 'a list" where
  "delete_first P [] = []"
| "delete_first P (x # xs) = (if P x then xs else x # delete_first P xs)"

text \<open>\<^verbatim>\<open>isChannelLimitReached\<close>: ten public channels or more.\<close>

definition isChannelLimitReached :: "state \<Rightarrow> bool" where
  "isChannelLimitReached s \<longleftrightarrow> length (filter (\<lambda>c. c_type c = Public) (channels s)) \<ge> 10"

text \<open>
  The controller \<^verbatim>\<open>createChannel\<close>; \<open>nm\<close> and \<open>ty\<close> are \<^verbatim>\<open>name\<close> and \<^verbatim>\<open>type\<close> of the body
  (\<open>None\<close> when absent; the type defaults to \<^verbatim>\<open>'public'\<close>).
\<close>

definition createChannel ::
  "time \<Rightarrow> oid \<Rightarrow> string option \<Rightarrow> string option \<Rightarrow> state \<Rightarrow> (error + channel) \<times> state" where
  "createChannel now user nm ty s =
     (if blank nm then (Inl NameRequired, s)
      else case nm of
        None \<Rightarrow> (Inl NameRequired, s)
      | Some n \<Rightarrow>
          let t = (case ty of None \<Rightarrow> ''public'' | Some x \<Rightarrow> x) in
          if \<not> nameRegex_test n then (Inl NameInvalid, s)
          else if \<exists>c \<in> set (channels s). name c = toLowerCase n then (Inl NameTaken, s)
          else if t = ''public'' \<and> isChannelLimitReached s then (Inl ChannelLimitReached, s)
          else Channel_create now (toLowerCase n) t user [user] s)"

definition joinChannel :: "oid \<Rightarrow> oid \<Rightarrow> state \<Rightarrow> (error + channel) \<times> state" where
  "joinChannel user i s =
     (case findChannelById s i of
        None \<Rightarrow> (Inl ChannelNotFound, s)
      | Some channel \<Rightarrow>
          if c_type channel \<noteq> Public then (Inl NotPublic, s)
          else if user \<in> set (members channel) then (Inl AlreadyMember, s)
          else let c = channel\<lparr>members := members channel @ [user]\<rparr>
               in (Inr c, save_channel c s))"

text \<open>
  \<^verbatim>\<open>User.findOne({ _id: { $in: members, $ne: user } }).sort({ created_at: 1 })\<close>: the
  first, in the order of creation time, of the users that are members and not the
  leaver.
\<close>

definition oldestMember :: "state \<Rightarrow> oid list \<Rightarrow> oid \<Rightarrow> user option" where
  "oldestMember s ms user =
     (case sort_key u_created_at
             (filter (\<lambda>u. u_id u \<in> set ms \<and> u_id u \<noteq> user) (users s)) of
        [] \<Rightarrow> None
      | u # rest \<Rightarrow> Some u)"

datatype leave_outcome = LeftChannel | ChannelDeleted

definition leaveChannel :: "oid \<Rightarrow> oid \<Rightarrow> state \<Rightarrow> (error + leave_outcome) \<times> state" where
  "leaveChannel user i s =
     (case findChannelById s i of
        None \<Rightarrow> (Inl ChannelNotFound, s)
      | Some channel \<Rightarrow>
          if c_type channel \<noteq> Public then (Inl NotPublic, s)
          else if user \<notin> set (members channel) then (Inl NotAMember, s)
          else
            let c1 = (if created_by channel = user \<and> length (members channel) > 1
                      then (case oldestMember s (members channel) user of
                              Some u \<Rightarrow> channel\<lparr>created_by := u_id u\<rparr>
                            | None \<Rightarrow> channel)
                      else channel);
                c2 = c1\<lparr>members := filter (\<lambda>memberId. memberId \<noteq> user) (members c1)\<rparr>
            in if length (members c2) = 0
               then (Inr ChannelDeleted,
                     s\<lparr>channels := delete_first (\<lambda>c. c_id c = i) (channels s)\<rparr>)
               else (Inr LeftChannel, save_channel c2 s))"

text \<open>\<^verbatim>\<open>deleteChannel\<close> (the route admits administrators only).\<close>

definition deleteChannel :: "oid \<Rightarrow> state \<Rightarrow> (error + unit) \<times> state" where
  "deleteChannel i s =
     (case findChannelById s i of
        None \<Rightarrow> (Inl ChannelNotFound, s)
      | Some channel \<Rightarrow>
          if name channel = ''general'' then (Inl CannotDeleteGeneral, s)
          else (Inr (), s\<lparr>channels := delete_first (\<lambda>c. c_id c = i) (channels s),
                          messages := filter (\<lambda>m. channel_id m \<noteq> i) (messages s)\<rparr>))"

text \<open>
  \<^verbatim>\<open>findDmChannel\<close>: the first channel of type dm whose members contain both users and
  are two in number.
\<close>

definition findDmChannel :: "state \<Rightarrow> oid \<Rightarrow> oid \<Rightarrow> channel option" where
  "findDmChannel s user1Id user2Id =
     find (\<lambda>c. c_type c = Dm \<and> user1Id \<in> set (members c) \<and> user2Id \<in> set (members c) \<and>
               length (members c) = 2) (channels s)"

text \<open>
  \<^verbatim>\<open>createDmChannel\<close>; \<open>other\<close> is the user that \<^verbatim>\<open>user_id\<close> of the body denotes, written
  as the 24 hexadecimal digits of an id. The name of a new channel is
  \<^verbatim>\<open>`dm-${req.user._id}-${user_id}`\<close>.
\<close>

definition dm_name :: "oid \<Rightarrow> oid \<Rightarrow> string" where
  "dm_name user other = ''dm-'' @ oid_str user @ ''-'' @ oid_str other"

definition createDmChannel :: "time \<Rightarrow> oid \<Rightarrow> oid \<Rightarrow> state \<Rightarrow> (error + channel) \<times> state" where
  "createDmChannel now user other s =
     (case findUserById s other of
        None \<Rightarrow> (Inl UserNotFound, s)
      | Some otherUser \<Rightarrow>
          (case findDmChannel s user other of
             Some existingChannel \<Rightarrow> (Inr existingChannel, s)
           | None \<Rightarrow>
               Channel_create now (dm_name user other) ''dm'' user [user, other] s))"

text \<open>The operations on channels, and a run of them.\<close>

datatype channel_op =
    CreateChannel time oid "string option" "string option"
  | JoinChannel oid oid
  | LeaveChannel oid oid
  | DeleteChannel oid
  | CreateDmChannel time oid oid

fun run_channel_op :: "state \<Rightarrow> channel_op \<Rightarrow> state" where
  "run_channel_op s (CreateChannel now user nm ty) = snd (createChannel now user nm ty s)"
| "run_channel_op s (JoinChannel user i) = snd (joinChannel user i s)"
| "run_channel_op s (LeaveChannel user i) = snd (leaveChannel user i s)"
| "run_channel_op s (DeleteChannel i) = snd (deleteChannel i s)"
| "run_channel_op s (CreateDmChannel now user other) = snd (createDmChannel now user other s)"

definition run_channel_ops :: "state \<Rightarrow> channel_op list \<Rightarrow> state" where
  "run_channel_ops s ops = foldl run_channel_op s ops"

definition channels_have_members :: "state \<Rightarrow> bool" where
  "channels_have_members s \<longleftrightarrow> (\<forall>c \<in> set (channels s). members c \<noteq> [])"

section \<open>Scenarios\<close>

text \<open>
  Three users, one public channel of which Alice and Carol are members and Bob is not,
  and a thread three messages deep: a root, a reply to it, and a reply to that reply.
\<close>

definition alice :: user where
  "alice = \<lparr>u_id = 1, display_name = ''Alice'', is_online = False, last_seen = 0,
            u_created_at = 100\<rparr>"

definition bob :: user where
  "bob = \<lparr>u_id = 2, display_name = ''Bob'', is_online = False, last_seen = 0,
          u_created_at = 200\<rparr>"

definition carol :: user where
  "carol = \<lparr>u_id = 3, display_name = ''Carol'', is_online = False, last_seen = 0,
            u_created_at = 50\<rparr>"

definition general :: channel where
  "general = \<lparr>c_id = 10, name = ''general'', c_type = Public, created_by = 1,
              members = [1, 3], c_created_at = 0\<rparr>"

definition state0 :: state where
  "state0 = \<lparr>users = [alice, bob, carol], channels = [general], messages = [],
             notifications = [], emitted = [], next_oid = 100\<rparr>"

definition thread_state :: state where
  "thread_state = state0\<lparr>messages :=
     [new_message 20 0 ''root'' 1 10 None None,
      new_message 21 1 ''reply'' 3 10 (Some 20) None,
      new_message 22 2 ''reply to the reply'' 1 10 (Some 21) None]\<rparr>"

text \<open>Alice has posted one message in the channel.\<close>

definition root_state :: state where
  "root_state = state0\<lparr>messages := [new_message 20 0 ''root'' 1 10 None None]\<rparr>"

text \<open>A message of Alice that mentions Carol twice and Alice herself once.\<close>

definition mention_message :: message where
  "mention_message = new_message 7 0 ''@carol @Carol @alice'' 1 10 None None"

definition sample_notification :: "oid \<Rightarrow> oid \<Rightarrow> notification" where
  "sample_notification i r =
     \<lparr>n_id = i, recipient_id = r, sender_id = 3, n_type = Mention, n_message_id = None,
      n_channel_id = None, n_content = ''Carol mentioned you in a message'', is_read = False,
      n_created_at = 0\<rparr>"

text \<open>Alice connects twice (two devices).\<close>

definition two_sessions :: server where
  "two_sessions =
     on_connection 2000 2 1 (on_connection 1000 1 1 \<lparr>store = state0, sockets = []\<rparr>)"

text \<open>A channel of three members created by Alice, and one whose only member is Bob.\<close>

definition team :: channel where
  "team = \<lparr>c_id = 11, name = ''team'', c_type = Public, created_by = 1,
           members = [1, 2, 3], c_created_at = 0\<rparr>"

definition solo :: channel where
  "solo = \<lparr>c_id = 12, name = ''solo'', c_type = Public, created_by = 2,
           members = [2], c_created_at = 0\<rparr>"

definition team_state :: state where
  "team_state = state0\<lparr>channels := [general, team, solo]\<rparr>"

section \<open>Lemmas on lists and strings\<close>

lemma find_Some_P: "find P xs = Some x \<Longrightarrow> P x"
  by (induction xs) (auto split: if_splits)

lemma find_Some_set: "find P xs = Some x \<Longrightarrow> x \<in> set xs"
  by (induction xs) (auto split: if_splits)

lemma find_update_first:
  "(\<And>x. P x \<Longrightarrow> P (f x)) \<Longrightarrow> find P (update_first P f xs) = map_option f (find P xs)"
  by (induction xs) auto

lemma find_delete_first_distinct:
  "distinct (map f xs) \<Longrightarrow> find (\<lambda>x. f x = i) (delete_first (\<lambda>x. f x = i) xs) = None"
  by (induction xs) (auto simp: find_None_iff image_iff)

lemma set_update_first_const: "set (update_first P (\<lambda>x. c) xs) \<subseteq> insert c (set xs)"
  by (induction xs) auto

lemma set_delete_first: "set (delete_first P xs) \<subseteq> set xs"
  by (induction xs) auto

lemma two_members_length:
  "a \<in> set xs \<Longrightarrow> b \<in> set xs \<Longrightarrow> a \<noteq> b \<Longrightarrow> length xs > 1"
  by (cases xs; cases "tl xs") auto

lemma count_map_filter:
  "length (filter (\<lambda>x. x = r) (List.map_filter f ts)) = length (filter (\<lambda>t. f t = Some r) ts)"
  by (induction ts) (auto simp: List.map_filter_simps split: option.splits)

lemma blank_Some: "blank (Some t) \<longleftrightarrow> trim t = []"
  by (auto simp: blank_def trim_def)

section \<open>Properties of the reaction methods\<close>

lemma find_same_reaction_None:
  "find (same_reaction (RString e) u) rs = None \<longleftrightarrow>
   (e, u) \<notin> set (map (\<lambda>r. (emoji r, user_id r)) rs)"
  by (induction rs) (auto simp: same_reaction_def)

lemma find_same_reaction_not_string:
  "(\<And>t. e \<noteq> RString t) \<Longrightarrow> find (same_reaction e u) rs = None"
  by (induction rs) (auto simp: same_reaction_def)

text \<open>
  What holds when the emoji is sent as a string: a pair that is there is not added
  again, and an addition keeps the pairs distinct. A removal, of any value, keeps them
  distinct, and leaves the reactions as they are when no reaction matches.
\<close>

lemma addReaction_existing_string:
  "(e, u) \<in> set (reaction_pairs doc) \<Longrightarrow> addReaction now (RString e) u doc s = (Inr doc, s)"
proof -
  assume "(e, u) \<in> set (reaction_pairs doc)"
  then have "find (same_reaction (RString e) u) (reactions doc) \<noteq> None"
    by (simp add: find_same_reaction_None reaction_pairs_def)
  then show ?thesis
    by (auto simp: addReaction_def)
qed

lemma addReaction_string_unique:
  assumes "unique_reactions doc" and "fst (addReaction now (RString e) u doc s) = Inr m"
  shows "unique_reactions m"
proof (cases "find (same_reaction (RString e) u) (reactions doc)")
  case None
  then have "(e, u) \<notin> set (reaction_pairs doc)"
    by (simp add: find_same_reaction_None reaction_pairs_def)
  with None assms show ?thesis
    by (auto simp: addReaction_def unique_reactions_def reaction_pairs_def Let_def
             split: if_splits)
next
  case (Some r)
  with assms show ?thesis
    by (simp add: addReaction_def)
qed

lemma removeReaction_unique:
  "unique_reactions doc \<Longrightarrow> unique_reactions (fst (removeReaction e u doc s))"
  by (simp add: removeReaction_def unique_reactions_def reaction_pairs_def Let_def
                distinct_map_filter)

lemma removeReaction_absent:
  "find (same_reaction e u) (reactions doc) = None \<Longrightarrow>
   fst (removeReaction e u doc s) = doc"
  by (simp add: removeReaction_def Let_def find_None_iff filter_id_conv)

text \<open>
  What happens when the emoji is sent as a number or a boolean: no stored reaction is
  ever identical to it, so the printed value is pushed whatever the reactions are.
\<close>

lemma addReaction_not_string_pushes:
  assumes "\<And>t. e \<noteq> RString t" and "castString e = Some t" and "t \<noteq> []"
  shows "fst (addReaction now e u doc s)
           = Inr (doc\<lparr>reactions := reactions doc @
                                  [\<lparr>emoji = t, user_id = u, r_created_at = now\<rparr>]\<rparr>)"
  using assms(2,3) find_same_reaction_not_string [of e u "reactions doc"] assms(1)
  by (simp add: addReaction_def Let_def)

text \<open>
  C7, at the input where the code departs from it. Alice, a member, sends the reaction
  \<^verbatim>\<open>{ "emoji": 5 }\<close> to message 20 twice over HTTP. The number is not falsy, so the
  controller lets it through; the first request stores the pair \<^verbatim>\<open>("5", Alice)\<close>; the
  second request compares the stored string with the number, finds nothing, and stores
  the same pair again: the message carries it twice.
\<close>

theorem addReaction_number_emoji_stored_twice:
  "(let s1 = snd (addReaction_controller 1000 1 20 (RNumber 5) root_state);
        s2 = snd (addReaction_controller 2000 1 20 (RNumber 5) s1) in
    map_option reaction_pairs (findMessageById root_state 20) = Some [] \<and>
    map_option reaction_pairs (findMessageById s1 20) = Some [(''5'', 1)] \<and>
    map_option reaction_pairs (findMessageById s2 20) = Some [(''5'', 1), (''5'', 1)] \<and>
    map_option unique_reactions (findMessageById s2 20) = Some False)"
  by code_simp

section \<open>Properties of marking notifications as read\<close>

lemma markAsRead_nth:
  "i < length ns \<Longrightarrow>
   markAsRead u l ns ! i =
     (if markAsRead_filter u l (ns ! i) then (ns ! i)\<lparr>is_read := True\<rparr> else ns ! i)"
  by (simp add: markAsRead_def)

lemma markAsRead_controller_eq:
  "markAsRead_controller u ids ns = markAsRead u (case ids of None \<Rightarrow> [] | Some l \<Rightarrow> l) ns"
  by (cases ids) (auto simp: markAsRead_controller_def)

text \<open>
  C10. Marking as read changes only notifications whose recipient is the requesting
  user: whatever ids the request lists, a notification of another recipient stays as it
  is, also when its id is in the list; a notification of the requester whose id is in
  the list is marked; and a request without ids marks exactly the requester's
  notifications.
\<close>

theorem markAsRead_only_recipient:
  "length (markAsRead_controller u ids ns) = length ns \<and>
   (\<forall>i < length ns. recipient_id (ns ! i) \<noteq> u \<longrightarrow>
      markAsRead_controller u ids ns ! i = ns ! i \<and> markAsRead u l ns ! i = ns ! i) \<and>
   (\<forall>i < length ns. recipient_id (ns ! i) = u \<and> n_id (ns ! i) \<in> set l \<longrightarrow>
      markAsRead u l ns ! i = (ns ! i)\<lparr>is_read := True\<rparr>) \<and>
   (ids = None \<or> ids = Some [] \<longrightarrow>
      markAsRead_controller u ids ns =
        map (\<lambda>n. if recipient_id n = u then n\<lparr>is_read := True\<rparr> else n) ns)"
proof (intro conjI allI impI)
  show "length (markAsRead_controller u ids ns) = length ns"
    by (simp add: markAsRead_controller_eq markAsRead_def)
next
  fix i assume "i < length ns" and "recipient_id (ns ! i) \<noteq> u"
  then show "markAsRead_controller u ids ns ! i = ns ! i"
    by (simp add: markAsRead_controller_eq markAsRead_nth markAsRead_filter_def)
next
  fix i assume "i < length ns" and "recipient_id (ns ! i) \<noteq> u"
  then show "markAsRead u l ns ! i = ns ! i"
    by (simp add: markAsRead_nth markAsRead_filter_def)
next
  fix i assume "i < length ns" and "recipient_id (ns ! i) = u \<and> n_id (ns ! i) \<in> set l"
  then show "markAsRead u l ns ! i = (ns ! i)\<lparr>is_read := True\<rparr>"
    by (auto simp: markAsRead_nth markAsRead_filter_def)
next
  assume "ids = None \<or> ids = Some []"
  then show "markAsRead_controller u ids ns =
        map (\<lambda>n. if recipient_id n = u then n\<lparr>is_read := True\<rparr> else n) ns"
    by (auto simp: markAsRead_controller_def markAsRead_def markAsRead_filter_def)
qed

theorem markAsRead_only_recipient_witness:
  "(let ns = [sample_notification 1 1, sample_notification 2 2, sample_notification 3 1] in
    (1::nat) < length ns \<and> recipient_id (ns ! 1) \<noteq> 1 \<and>
    markAsRead_controller 1 (Some [1, 2]) ns ! 1 = ns ! 1 \<and>
    markAsRead 1 [1, 2] ns ! 1 = ns ! 1 \<and>
    (0::nat) < length ns \<and> recipient_id (ns ! 0) = 1 \<and> n_id (ns ! 0) \<in> set [1, 2] \<and>
    markAsRead 1 [1, 2] ns ! 0 = (ns ! 0)\<lparr>is_read := True\<rparr> \<and>
    markAsRead_controller 1 None ns =
      [(sample_notification 1 1)\<lparr>is_read := True\<rparr>, sample_notification 2 2,
       (sample_notification 3 1)\<lparr>is_read := True\<rparr>])"
  using markAsRead_only_recipient
          [of 1 "Some [1, 2]"
              "[sample_notification 1 1, sample_notification 2 2, sample_notification 3 1]"
              "[1, 2]"]
        markAsRead_only_recipient
          [of 1 None
              "[sample_notification 1 1, sample_notification 2 2, sample_notification 3 1]"
              "[1, 2]"]
  by (simp add: Let_def sample_notification_def)

section \<open>Creating a message on the two transports\<close>

lemma depth_limit_never_reached: "\<not> depth_limit_reached m"
  by (cases "thread_parent_id m")
     (simp_all add: depth_limit_reached_def field_thread_parent_id_def)

lemma createMessage_never_ThreadDepthExceeded:
  "fst (createMessage upload now user c chan parent file s) \<noteq> Inl ThreadDepthExceeded"
  by (auto simp: createMessage_def thread_check_def depth_limit_never_reached
                 Message_create_def Let_def
           split: option.splits sum.splits prod.splits if_splits)

text \<open>
  What each transport does with a request of a user who is not a member of the channel:
  the HTTP controller refuses it and changes nothing (with the membership error once
  the content has passed its checks); the handler of \<^verbatim>\<open>message:send\<close> stores any content
  of at most 2000 characters for any user and any channel id.
\<close>

lemma createMessage_non_member:
  assumes "findChannelById s chan = Some ch" and "user \<notin> set (members ch)"
  shows "snd (createMessage upload now user c chan parent file s) = s \<and>
         fst (createMessage upload now user c chan parent file s)
           \<in> {Inl EmptyContent, Inl TooLong, Inl NotMember}"
  using assms by (auto simp: createMessage_def split: option.splits)

lemma createMessage_NotMember:
  assumes "findChannelById s chan = Some ch" and "user \<notin> set (members ch)"
    and "trim t \<noteq> []" and "length t \<le> 2000"
  shows "createMessage upload now user (Some t) chan parent file s = (Inl NotMember, s)"
  using assms by (auto simp: createMessage_def blank_Some)

lemma message_send_no_gate:
  "length t \<le> 2000 \<Longrightarrow>
   fst (message_send now user (Some t) chan parent s)
     = Inr (new_message (next_oid s) now t user chan parent None)"
  by (simp add: message_send_def Message_create_def Let_def)

lemma messages_emit [simp]: "messages (emit r e s) = messages s"
  by (simp add: emit_def)

lemma messages_createNotification [simp]:
  "messages (createNotification now r sd ty mi ci tx s) = messages s"
  by (simp add: createNotification_def)

lemma messages_mentions_loop [simp]: "messages (mentions_loop now a m ts s) = messages s"
  by (induction ts arbitrary: s) (auto split: option.splits)

lemma message_send_stores:
  "length t \<le> 2000 \<Longrightarrow>
   messages (snd (message_send now user (Some t) chan parent s))
     = messages s @ [new_message (next_oid s) now t user chan parent None]"
  by (simp add: message_send_def Message_create_def Let_def processMentions_def
                emit_new_message_def split: option.splits)

text \<open>
  C1, at the input where the code departs from it. Bob is not a member of the channel.
  Over HTTP his request is answered with the membership error and the state is as
  before; over the live connection the same request stores the message: the handler of
  \<^verbatim>\<open>message:send\<close> does not look at the channel's members.
\<close>

theorem message_send_skips_membership_gate:
  "findChannelById state0 10 = Some general \<and> 2 \<notin> set (members general) \<and>
   createMessage (\<lambda>f :: unit. None) 1000 2 (Some ''hello'') 10 None None state0
     = (Inl NotMember, state0) \<and>
   fst (message_send 1000 2 (Some ''hello'') 10 None state0)
     = Inr (new_message 100 1000 ''hello'' 2 10 None None) \<and>
   messages (snd (message_send 1000 2 (Some ''hello'') 10 None state0))
     = [new_message 100 1000 ''hello'' 2 10 None None]"
  by code_simp

text \<open>
  C2, at the input where the code departs from it. Message 22 is a reply to a reply: its
  parent 21 has the parent 20. A reply to message 22 is accepted on both transports. Over
  HTTP the check reads a property of the parent's stored parent id, which is never
  there; the live connection has no check.
\<close>

theorem thread_depth_limit_not_enforced:
  "findMessageById thread_state 22
     = Some (new_message 22 2 ''reply to the reply'' 1 10 (Some 21) None) \<and>
   grandparent thread_state (new_message 22 2 ''reply to the reply'' 1 10 (Some 21) None)
     = Some 20 \<and>
   fst (createMessage (\<lambda>f :: unit. None) 1000 1 (Some ''deeper'') 10 (Some 22) None
          thread_state)
     = Inr (new_message 100 1000 ''deeper'' 1 10 (Some 22) None) \<and>
   fst (message_send 1000 1 (Some ''deeper'') 10 (Some 22) thread_state)
     = Inr (new_message 100 1000 ''deeper'' 1 10 (Some 22) None)"
  by code_simp

section \<open>Presence\<close>

lemma findUserById_updateUserStatus:
  "findUserById (updateUserStatus now u b s) u
     = map_option (\<lambda>x. x\<lparr>is_online := b, last_seen := now\<rparr>) (findUserById s u)"
  by (simp add: findUserById_def updateUserStatus_def find_update_first)

lemma session_count_disconnect:
  assumes "distinct (map socket_id ks)" "find (\<lambda>k. socket_id k = sid) ks = Some k"
    "socket_user k = u"
  shows "Suc (length (filter (\<lambda>x. socket_id x \<noteq> sid \<and> socket_user x = u) ks))
         = length (filter (\<lambda>x. socket_user x = u) ks)"
  using assms
proof (induction ks)
  case Nil
  then show ?case by simp
next
  case (Cons a ks)
  show ?case
  proof (cases "socket_id a = sid")
    case True
    with Cons.prems have ak: "a = k" by simp
    from Cons.prems(1) have "socket_id a \<notin> socket_id ` set ks" by simp
    with True have "\<forall>x \<in> set ks. socket_id x \<noteq> sid" by blast
    then have "filter (\<lambda>x. socket_id x \<noteq> sid \<and> socket_user x = u) ks
                 = filter (\<lambda>x. socket_user x = u) ks"
      by (auto intro: filter_cong)
    with True ak Cons.prems show ?thesis by simp
  next
    case False
    with Cons show ?thesis by simp
  qed
qed

text \<open>
  C3 as stated fails: Alice holds two connections, one of them disconnects, and she is
  marked offline while one connection remains.
\<close>

theorem presence_two_sessions_counterexample:
  "session_count two_sessions 1 = 2 \<and>
   map_option is_online (findUserById (store two_sessions) 1) = Some True \<and>
   session_count (on_disconnect 3000 1 two_sessions) 1 = 1 \<and>
   map_option is_online (findUserById (store (on_disconnect 3000 1 two_sessions)) 1)
     = Some False"
  by code_simp

text \<open>
  C3 as amended. Presence is a flag on the user, written on every connection and every
  disconnection, with no count of sessions: a connection sets \<^verbatim>\<open>is_online\<close> to true and
  a disconnection sets it to false, each stamping \<^verbatim>\<open>last_seen\<close> with the time of the
  write, whatever the number of connections the user holds before (so also on the
  transitions from none to one and from one to none); the number of connections goes up
  and down by one.
\<close>

theorem presence_is_a_flag:
  assumes "findUserById (store srv) u = Some usr"
  shows "findUserById (store (on_connection now sid u srv)) u
           = Some (usr\<lparr>is_online := True, last_seen := now\<rparr>) \<and>
         session_count (on_connection now sid u srv) u = Suc (session_count srv u) \<and>
         (\<forall>k. find (\<lambda>k. socket_id k = sid) (sockets srv) = Some k \<and> socket_user k = u \<longrightarrow>
            findUserById (store (on_disconnect now sid srv)) u
              = Some (usr\<lparr>is_online := False, last_seen := now\<rparr>) \<and>
            (distinct (map socket_id (sockets srv)) \<longrightarrow>
               Suc (session_count (on_disconnect now sid srv) u) = session_count srv u))"
  using assms
  by (auto simp: on_connection_def on_disconnect_def Let_def findUserById_updateUserStatus
                 session_count_def session_count_disconnect)

theorem presence_is_a_flag_witness:
  "findUserById (store two_sessions) 1 = Some (alice\<lparr>is_online := True, last_seen := 2000\<rparr>) \<and>
   findUserById (store (on_connection 2500 3 1 two_sessions)) 1
     = Some (alice\<lparr>is_online := True, last_seen := 2500\<rparr>) \<and>
   find (\<lambda>k. socket_id k = 2) (sockets two_sessions)
     = Some \<lparr>socket_id = 2, socket_user = 1, rooms = [ChannelRoom 10]\<rparr> \<and>
   distinct (map socket_id (sockets two_sessions)) \<and>
   findUserById (store (on_disconnect 3000 2 two_sessions)) 1
     = Some (alice\<lparr>is_online := False, last_seen := 3000\<rparr>) \<and>
   session_count two_sessions 1 = 2 \<and>
   session_count (on_disconnect 3000 2 two_sessions) 1 = 1"
  using presence_is_a_flag
          [of two_sessions 1 "alice\<lparr>is_online := True, last_seen := 2000\<rparr>" 2500 3]
        presence_is_a_flag
          [of two_sessions 1 "alice\<lparr>is_online := True, last_seen := 2000\<rparr>" 3000 2]
  by (simp add: two_sessions_def on_connection_def Let_def updateUserStatus_def state0_def
                alice_def bob_def carol_def general_def findUserById_def
                joinUserChannels_def session_count_def)

section \<open>Pinning\<close>

lemma findMessageById_save:
  "findMessageById s i = Some old \<Longrightarrow> m_id m = i \<Longrightarrow>
   findMessageById (emit r e (save_message m s)) i = Some m"
  by (simp add: findMessageById_def save_message_def emit_def find_update_first)

lemma pinMessage_deleted:
  "findMessageById s i = Some m \<Longrightarrow> is_deleted m \<Longrightarrow>
   pinMessage user i s = (Inl CannotPinDeleted, s)"
  by (simp add: pinMessage_def)

lemma unpinMessage_not_pinned:
  "findMessageById s i = Some m \<Longrightarrow> \<not> is_pinned m \<Longrightarrow>
   unpinMessage user i s = (Inl NotPinned, s)"
  by (simp add: unpinMessage_def)

lemma pinMessage_failure_unchanged:
  "fst (pinMessage user i s) = Inl e \<Longrightarrow> snd (pinMessage user i s) = s"
  by (auto simp: pinMessage_def Let_def split: option.splits if_splits)

lemma unpinMessage_failure_unchanged:
  "fst (unpinMessage user i s) = Inl e \<Longrightarrow> snd (unpinMessage user i s) = s"
  by (auto simp: unpinMessage_def Let_def split: option.splits if_splits)

text \<open>
  The two cases the code lets through: a member pins a message that is pinned already,
  and a member unpins a pinned message that has been deleted.
\<close>

lemma pinMessage_already_pinned:
  assumes "findMessageById s i = Some m" "\<not> is_deleted m" "is_pinned m"
    "findChannelById s (channel_id m) = Some ch" "user \<in> set (members ch)"
  shows "fst (pinMessage user i s) = Inr m"
  using assms by (simp add: pinMessage_def Let_def)

lemma unpinMessage_deleted:
  assumes "findMessageById s i = Some m" "is_deleted m" "is_pinned m"
    "findChannelById s (channel_id m) = Some ch" "user \<in> set (members ch)"
  shows "fst (unpinMessage user i s) = Inr () \<and>
         findMessageById (snd (unpinMessage user i s)) i = Some (m\<lparr>is_pinned := False\<rparr>)"
proof -
  from assms(1) have "m_id m = i"
    by (auto simp: findMessageById_def dest: find_Some_P)
  with assms show ?thesis
    by (simp add: unpinMessage_def Let_def findMessageById_save)
qed

text \<open>
  C5, at the inputs where the code departs from it. Alice pins her message; Carol, a
  member, pins it again and is answered with success, not with an error. Alice then
  deletes the message, which stays pinned; Carol unpins the deleted message and is
  answered with success, and the flag is cleared. (The code does refuse to pin a deleted
  message and to unpin one that is not pinned, and a refused request changes nothing:
  the first four lemmas of this section.)
\<close>

theorem pin_unpin_missing_state_checks:
  "(let s1 = snd (pinMessage 1 20 root_state);
        s2 = snd (deleteMessage 1 20 s1) in
    map_option is_pinned (findMessageById s1 20) = Some True \<and>
    fst (pinMessage 3 20 s1)
      = Inr ((new_message 20 0 ''root'' 1 10 None None)\<lparr>is_pinned := True\<rparr>) \<and>
    map_option is_deleted (findMessageById s2 20) = Some True \<and>
    map_option is_pinned (findMessageById s2 20) = Some True \<and>
    fst (unpinMessage 3 20 s2) = Inr () \<and>
    map_option is_pinned (findMessageById (snd (unpinMessage 3 20 s2)) 20) = Some False)"
  by code_simp

section \<open>Editing\<close>

lemma canBeEdited_iff:
  "canBeEdited now m \<longleftrightarrow> now - m_created_at m < 300000 \<and> \<not> is_deleted m"
  by (auto simp: canBeEdited_def Let_def)

text \<open>
  C6 as stated fails: the claim's conditions hold for the author's edit after one second
  with the new content \<^verbatim>\<open>" "\<close>, which is not empty and not longer than 2000, and the
  edit is refused (the controller trims the content before it tests it for emptiness).
\<close>

theorem editMessage_blank_content_counterexample:
  "findMessageById root_state 20 = Some (new_message 20 0 ''root'' 1 10 None None) \<and>
   author_id (new_message 20 0 ''root'' 1 10 None None) = 1 \<and>
   \<not> is_deleted (new_message 20 0 ''root'' 1 10 None None) \<and>
   '' '' \<noteq> [] \<and> length '' '' \<le> 2000 \<and>
   1000 - m_created_at (new_message 20 0 ''root'' 1 10 None None) < 300 * 1000 \<and>
   editMessage 1000 1 20 (Some '' '') root_state = (Inl ContentRequired, root_state)"
  by code_simp

text \<open>
  C6 as amended. The HTTP edit succeeds exactly when the new content is a string that is
  not blank (not empty once white space is trimmed from its ends) and has at most 2000
  characters, the message exists, the requester is its author, it is not deleted, and
  less than 300 seconds (300000 ms) have passed since its creation. It then returns and
  stores the message with the new content, marked edited. With content, message and
  author as required, an edit 300 seconds or more after creation is answered with the
  edit-window error and changes nothing, and so does every refused edit.
\<close>

theorem editMessage_window:
  "((\<exists>m. fst (editMessage now user i c s) = Inr m) \<longleftrightarrow>
      (\<exists>t msg. c = Some t \<and> trim t \<noteq> [] \<and> length t \<le> 2000 \<and>
         findMessageById s i = Some msg \<and> author_id msg = user \<and> \<not> is_deleted msg \<and>
         now - m_created_at msg < 300000)) \<and>
   (\<forall>t msg. c = Some t \<and> trim t \<noteq> [] \<and> length t \<le> 2000 \<and>
         findMessageById s i = Some msg \<and> author_id msg = user \<longrightarrow>
      (\<not> is_deleted msg \<and> now - m_created_at msg < 300000 \<longrightarrow>
         fst (editMessage now user i c s)
           = Inr (msg\<lparr>content := t, is_edited := True, m_updated_at := now\<rparr>) \<and>
         findMessageById (snd (editMessage now user i c s)) i
           = Some (msg\<lparr>content := t, is_edited := True, m_updated_at := now\<rparr>)) \<and>
      (now - m_created_at msg \<ge> 300000 \<longrightarrow>
         editMessage now user i c s = (Inl EditWindowExpired, s))) \<and>
   (\<forall>e. fst (editMessage now user i c s) = Inl e \<longrightarrow> snd (editMessage now user i c s) = s)"
proof (intro conjI allI impI)
  show "(\<exists>m. fst (editMessage now user i c s) = Inr m) \<longleftrightarrow>
      (\<exists>t msg. c = Some t \<and> trim t \<noteq> [] \<and> length t \<le> 2000 \<and>
         findMessageById s i = Some msg \<and> author_id msg = user \<and> \<not> is_deleted msg \<and>
         now - m_created_at msg < 300000)"
    by (cases c; cases "findMessageById s i")
       (auto simp: editMessage_def blank_Some canBeEdited_iff Let_def blank_def trim_def)
next
  fix t msg
  assume a: "c = Some t \<and> trim t \<noteq> [] \<and> length t \<le> 2000 \<and>
         findMessageById s i = Some msg \<and> author_id msg = user"
    and b: "\<not> is_deleted msg \<and> now - m_created_at msg < 300000"
  from a have idm: "m_id msg = i"
    by (auto simp: findMessageById_def dest: find_Some_P)
  from a b show "fst (editMessage now user i c s)
           = Inr (msg\<lparr>content := t, is_edited := True, m_updated_at := now\<rparr>)"
    by (simp add: editMessage_def blank_Some canBeEdited_iff Let_def)
  from a b idm show "findMessageById (snd (editMessage now user i c s)) i
           = Some (msg\<lparr>content := t, is_edited := True, m_updated_at := now\<rparr>)"
    by (simp add: editMessage_def blank_Some canBeEdited_iff Let_def findMessageById_save)
next
  fix t msg
  assume a: "c = Some t \<and> trim t \<noteq> [] \<and> length t \<le> 2000 \<and>
         findMessageById s i = Some msg \<and> author_id msg = user"
    and b: "now - m_created_at msg \<ge> 300000"
  then show "editMessage now user i c s = (Inl EditWindowExpired, s)"
    by (simp add: editMessage_def blank_Some canBeEdited_iff)
next
  fix e assume "fst (editMessage now user i c s) = Inl e"
  then show "snd (editMessage now user i c s) = s"
    by (auto simp: editMessage_def Let_def split: option.splits if_splits)
qed

theorem editMessage_window_witness:
  "trim ''fixed'' \<noteq> [] \<and> length ''fixed'' \<le> 2000 \<and>
   findMessageById root_state 20 = Some (new_message 20 0 ''root'' 1 10 None None) \<and>
   author_id (new_message 20 0 ''root'' 1 10 None None) = 1 \<and>
   fst (editMessage 299999 1 20 (Some ''fixed'') root_state)
     = Inr ((new_message 20 0 ''root'' 1 10 None None)
              \<lparr>content := ''fixed'', is_edited := True, m_updated_at := 299999\<rparr>) \<and>
   editMessage 300000 1 20 (Some ''fixed'') root_state = (Inl EditWindowExpired, root_state) \<and>
   fst (editMessage 300000 1 20 (Some ''fixed'') root_state) = Inl EditWindowExpired \<and>
   snd (editMessage 300000 1 20 (Some ''fixed'') root_state) = root_state"
  using editMessage_window [of 299999 1 20 "Some ''fixed''" root_state]
        editMessage_window [of 300000 1 20 "Some ''fixed''" root_state]
  by (simp add: root_state_def state0_def findMessageById_def new_message_def trim_def
                is_js_space_def)

section \<open>Mention processing\<close>

lemma users_createNotification [simp]:
  "users (createNotification now r sd ty mi ci tx s) = users s"
  by (simp add: createNotification_def)

lemma notifications_createNotification:
  "notifications (createNotification now r sd ty mi ci tx s)
     = notifications s @ [\<lparr>n_id = next_oid s, recipient_id = r, sender_id = sd, n_type = ty,
            n_message_id = Some mi, n_channel_id = Some ci, n_content = tx,
            is_read = False, n_created_at = now\<rparr>]"
  by (simp add: createNotification_def)

lemma lookups_users_cong:
  "users s1 = users s \<Longrightarrow>
     findUserByDisplayName s1 = findUserByDisplayName s \<and>
     findUserById s1 = findUserById s \<and>
     resolve_mention s1 = resolve_mention s \<and>
     mention_target s1 = mention_target s"
  by (auto simp: findUserByDisplayName_def findUserById_def resolve_mention_def
                 mention_target_def fun_eq_iff)

lemma mentions_loop_notifications:
  assumes "author_toString a = Some pa" "author_cast a = Some aid"
    "findUserById s aid = Some sender"
  shows "\<exists>extra. notifications (mentions_loop now a m ts s) = notifications s @ extra \<and>
           map recipient_id extra = List.map_filter (mention_target s pa) ts \<and>
           (\<forall>n \<in> set extra. is_mention_of aid m n)"
  using assms(3)
proof (induction ts arbitrary: s)
  case Nil
  then show ?case by simp
next
  case (Cons t ts)
  show ?case
  proof (cases "findUserByDisplayName s (drop 1 t)")
    case None
    then have "mention_target s pa t = None"
      by (simp add: mention_target_def resolve_mention_def)
    with None Cons show ?thesis
      by simp
  next
    case (Some user)
    show ?thesis
    proof (cases "IdString (u_id user) \<noteq> pa")
      case False
      with Some have "mention_target s pa t = None"
        by (simp add: mention_target_def resolve_mention_def)
      with Some False Cons assms(1) show ?thesis
        by simp
    next
      case True
      let ?s1 = "createNotification now (u_id user) aid Mention (m_id m)
                   (channel_id m) (display_name sender @ '' mentioned you in a message'') s"
      have us: "users ?s1 = users s" by simp
      have f1: "findUserById ?s1 aid = Some sender"
        using lookups_users_cong [OF us] Cons.prems by simp
      from Cons.IH [OF f1] obtain extra where
        e: "notifications (mentions_loop now a m ts ?s1) = notifications ?s1 @ extra"
           "map recipient_id extra = List.map_filter (mention_target ?s1 pa) ts"
           "\<forall>n \<in> set extra. is_mention_of aid m n"
        by blast
      have tgt: "mention_target s pa t = Some (u_id user)"
        using Some True by (simp add: mention_target_def resolve_mention_def)
      have step: "mentions_loop now a m (t # ts) s = mentions_loop now a m ts ?s1"
        using Some True assms(1,2) Cons.prems by simp
      let ?n = "\<lparr>n_id = next_oid s, recipient_id = u_id user, sender_id = aid,
                 n_type = Mention, n_message_id = Some (m_id m), n_channel_id = Some (channel_id m),
                 n_content = display_name sender @ '' mentioned you in a message'',
                 is_read = False, n_created_at = now\<rparr>"
      have "notifications (mentions_loop now a m (t # ts) s) = notifications s @ (?n # extra)"
        using step e(1) by (simp add: notifications_createNotification)
      moreover have "map recipient_id (?n # extra) = List.map_filter (mention_target s pa) (t # ts)"
        using e(2) tgt lookups_users_cong [OF us] by simp
      moreover have "\<forall>n \<in> set (?n # extra). is_mention_of aid m n"
        using e(3) by (simp add: is_mention_of_def)
      ultimately show ?thesis by blast
    qed
  qed
qed

lemma processMentions_loop:
  "processMentions now a m s = mentions_loop now a m (match_mentions (content m)) s"
  by (cases "match_mentions (content m)") (simp_all add: processMentions_def Let_def)

text \<open>
  C4 as stated fails: Alice's message names Carol, a member, twice, and two
  notifications of type mention are created for Carol.
\<close>

theorem mention_twice_counterexample:
  "3 \<in> set (members general) \<and>
   match_mentions ''@Carol and again @Carol'' = [''@Carol'', ''@Carol''] \<and>
   fst (message_send 1000 1 (Some ''@Carol and again @Carol'') 10 None state0)
     = Inr (new_message 100 1000 ''@Carol and again @Carol'' 1 10 None None) \<and>
   length (filter (\<lambda>n. recipient_id n = 3 \<and> n_type n = Mention)
             (notifications
                (snd (message_send 1000 1 (Some ''@Carol and again @Carol'') 10 None
                        state0)))) = 2"
  by code_simp

text \<open>
  C4 as amended. \<^verbatim>\<open>processMentions\<close> does not deduplicate: for an author who exists, it
  adds to the notifications, for every user other than the author, one notification of
  type mention per occurrence of a match that resolves to that user (so two when the
  name is written twice), each sent by the author for this message; and when the
  message's \<^verbatim>\<open>author_id\<close> holds the author's id, it adds none for the author.
\<close>

theorem processMentions_per_occurrence:
  assumes "author_cast a = Some aid" and "findUserById s aid = Some sender"
  shows "notifications (processMentions now a m s)
           = notifications s @ new_notifications s (processMentions now a m s) \<and>
         (\<forall>n \<in> set (new_notifications s (processMentions now a m s)). is_mention_of aid m n) \<and>
         (\<forall>r. r \<noteq> aid \<longrightarrow>
            length (filter (\<lambda>n. recipient_id n = r)
                      (new_notifications s (processMentions now a m s)))
              = length (filter (\<lambda>t. resolve_mention s t = Some r)
                          (match_mentions (content m)))) \<and>
         (a = AuthorId aid \<longrightarrow>
            (\<forall>n \<in> set (new_notifications s (processMentions now a m s)).
               recipient_id n \<noteq> aid))"
proof -
  from assms(1) obtain pa where pa: "author_toString a = Some pa"
    by (cases a) simp_all
  let ?ts = "match_mentions (content m)"
  from mentions_loop_notifications [OF pa assms, of now m ?ts]
  obtain extra where
    e: "notifications (processMentions now a m s) = notifications s @ extra"
       "map recipient_id extra = List.map_filter (mention_target s pa) ?ts"
       "\<forall>n \<in> set extra. is_mention_of aid m n"
    by (auto simp: processMentions_loop)
  have new: "new_notifications s (processMentions now a m s) = extra"
    by (simp add: new_notifications_def e(1))
  have other: "mention_target s pa t = Some r \<longleftrightarrow> resolve_mention s t = Some r"
    if "r \<noteq> aid" for r t
    using that pa assms(1)
    by (cases a) (auto simp: mention_target_def split: option.splits)
  have cnt: "length (filter (\<lambda>n. recipient_id n = r) extra)
               = length (filter (\<lambda>t. resolve_mention s t = Some r) ?ts)"
    if "r \<noteq> aid" for r
  proof -
    have "length (filter (\<lambda>n. recipient_id n = r) extra)
            = length (filter (\<lambda>x. x = r) (map recipient_id extra))"
      by (simp add: filter_map comp_def)
    also have "\<dots> = length (filter (\<lambda>t. mention_target s pa t = Some r) ?ts)"
      by (simp add: e(2) count_map_filter)
    also have "\<dots> = length (filter (\<lambda>t. resolve_mention s t = Some r) ?ts)"
      by (simp add: other [OF that])
    finally show ?thesis .
  qed
  have self: "\<forall>n \<in> set extra. recipient_id n \<noteq> aid" if "a = AuthorId aid"
  proof -
    from that pa have "pa = IdString aid" by simp
    then have "mention_target s pa t \<noteq> Some aid" for t
      by (auto simp: mention_target_def split: option.splits)
    then have "aid \<notin> set (List.map_filter (mention_target s pa) ?ts)"
      by (auto simp: List.map_filter_def)
    then have "aid \<notin> set (map recipient_id extra)" by (simp add: e(2))
    then show ?thesis by auto
  qed
  show ?thesis
    unfolding new using e(1,3) cnt self by blast
qed

theorem processMentions_per_occurrence_witness:
  "author_cast (AuthorId 1) = Some 1 \<and> findUserById state0 1 = Some alice \<and>
   (3::nat) \<noteq> 1 \<and>
   length (filter (\<lambda>t. resolve_mention state0 t = Some 3)
             (match_mentions (content mention_message))) = 2 \<and>
   length (filter (\<lambda>n. recipient_id n = 3)
     (new_notifications state0
        (processMentions 1000 (AuthorId 1) mention_message state0))) = 2 \<and>
   list_all (\<lambda>n. recipient_id n \<noteq> 1 \<and> is_mention_of 1 mention_message n)
     (new_notifications state0 (processMentions 1000 (AuthorId 1) mention_message state0))"
proof -
  have h1: "author_cast (AuthorId 1) = Some 1" by simp
  have h2: "findUserById state0 1 = Some alice" by code_simp
  have c: "length (filter (\<lambda>t. resolve_mention state0 t = Some 3)
             (match_mentions (content mention_message))) = 2"
    by code_simp
  show ?thesis
    using processMentions_per_occurrence [OF h1 h2, of 1000 mention_message] h2 c
    by (simp add: list_all_iff)
qed

text \<open>
  The HTTP controller does not run \<^verbatim>\<open>processMentions\<close>: a message created over HTTP adds
  no notification. The handler of \<^verbatim>\<open>message:send\<close> runs it on the document whose author
  it has populated, where the printed author is never the printed id of a user: Alice's
  mention of herself is notified to her.
\<close>

lemma createMessage_no_notification:
  "notifications (snd (createMessage upload now user c chan parent file s)) = notifications s"
  by (auto simp: createMessage_def Message_create_def emit_new_message_def emit_def Let_def
           split: option.splits if_splits)

lemma message_send_self_mention:
  "map recipient_id
     (notifications (snd (message_send 1000 1 (Some ''thanks @alice'') 10 None state0))) = [1]"
  by code_simp

section \<open>Leaving a channel\<close>

lemma oldestMember_Some:
  assumes "oldestMember s ms user = Some u"
  shows "u \<in> set (users s) \<and> u_id u \<in> set ms \<and> u_id u \<noteq> user \<and>
         (\<forall>v \<in> set (users s). u_id v \<in> set ms \<and> u_id v \<noteq> user \<longrightarrow> u_created_at u \<le> u_created_at v)"
proof -
  let ?c = "filter (\<lambda>u. u_id u \<in> set ms \<and> u_id u \<noteq> user) (users s)"
  from assms obtain rest where r: "sort_key u_created_at ?c = u # rest"
    by (auto simp: oldestMember_def split: list.splits)
  have "set (sort_key u_created_at ?c) = set ?c" by simp
  with r have mem: "set ?c = insert u (set rest)" by simp
  have "sorted (map u_created_at (sort_key u_created_at ?c))" by (rule sorted_sort_key)
  with r have "\<forall>v \<in> set rest. u_created_at u \<le> u_created_at v" by simp
  with mem have "\<forall>v \<in> set ?c. u_created_at u \<le> u_created_at v" by auto
  moreover from mem have "u \<in> set ?c" by simp
  ultimately show ?thesis by auto
qed

lemma oldestMember_None:
  assumes "oldestMember s ms user = None"
  shows "\<forall>v \<in> set (users s). \<not> (u_id v \<in> set ms \<and> u_id v \<noteq> user)"
proof -
  let ?c = "filter (\<lambda>u. u_id u \<in> set ms \<and> u_id u \<noteq> user) (users s)"
  from assms have "sort_key u_created_at ?c = []"
    by (auto simp: oldestMember_def split: list.splits)
  then have "set (sort_key u_created_at ?c) = {}" by simp
  then have "set ?c = {}" by simp
  then show ?thesis by auto
qed

lemma findChannelById_save:
  "findChannelById s i = Some old \<Longrightarrow> c_id c = i \<Longrightarrow>
   findChannelById (save_channel c s) i = Some c"
  by (simp add: findChannelById_def save_channel_def find_update_first)

lemma leaveChannel_keeps_members:
  "channels_have_members s \<Longrightarrow> channels_have_members (snd (leaveChannel user i s))"
proof -
  assume inv: "channels_have_members s"
  have del: "channels_have_members (s\<lparr>channels := delete_first P (channels s)\<rparr>)" for P
    using inv set_delete_first [of P "channels s"] by (auto simp: channels_have_members_def)
  have sav: "channels_have_members (save_channel c s)" if "members c \<noteq> []" for c
    using inv that set_update_first_const [of "\<lambda>x. c_id x = c_id c" c "channels s"]
    by (auto simp: channels_have_members_def save_channel_def)
  show ?thesis
    by (auto simp: leaveChannel_def Let_def inv del sav split: option.splits)
qed

lemma Channel_create_keeps_members:
  "channels_have_members s \<Longrightarrow> channels_have_members (snd (Channel_create now nm ty creator ms s))"
  by (auto simp: Channel_create_def Let_def channels_have_members_def split: option.splits)

lemma createChannel_keeps_members:
  "channels_have_members s \<Longrightarrow> channels_have_members (snd (createChannel now user nm ty s))"
  by (auto simp: createChannel_def Let_def Channel_create_keeps_members split: option.splits)

lemma createDmChannel_keeps_members:
  "channels_have_members s \<Longrightarrow> channels_have_members (snd (createDmChannel now user other s))"
  by (auto simp: createDmChannel_def Channel_create_keeps_members split: option.splits)

lemma joinChannel_keeps_members:
  "channels_have_members s \<Longrightarrow> channels_have_members (snd (joinChannel user i s))"
proof -
  assume inv: "channels_have_members s"
  have sav: "channels_have_members (save_channel c s)" if "members c \<noteq> []" for c
    using inv that set_update_first_const [of "\<lambda>x. c_id x = c_id c" c "channels s"]
    by (auto simp: channels_have_members_def save_channel_def)
  show ?thesis
    by (auto simp: joinChannel_def Let_def inv sav split: option.splits)
qed

lemma deleteChannel_keeps_members:
  "channels_have_members s \<Longrightarrow> channels_have_members (snd (deleteChannel i s))"
  using set_delete_first [of "\<lambda>c. c_id c = i" "channels s"]
  by (auto simp: deleteChannel_def channels_have_members_def split: option.splits)

lemma run_channel_op_keeps_members:
  "channels_have_members s \<Longrightarrow> channels_have_members (run_channel_op s x)"
  by (cases x)
     (simp_all add: createChannel_keeps_members joinChannel_keeps_members
        leaveChannel_keeps_members deleteChannel_keeps_members createDmChannel_keeps_members)

lemma foldl_channel_ops_keep_members:
  "channels_have_members s \<Longrightarrow> channels_have_members (foldl run_channel_op s ops)"
  by (induction ops arbitrary: s) (simp_all add: run_channel_op_keeps_members)

text \<open>
  C8. A member leaves a public channel. If the leaver is the creator and another member
  (a user of the service) remains, the leaver is removed and the channel's creator
  becomes a remaining member whose account was created no later than that of any other
  remaining member. If the leaver was the only member, the channel is deleted. And
  whatever operations on channels are run (create, join, leave, delete, direct
  channel), if every channel had a member before, every channel that exists afterwards
  has one.
\<close>

theorem leaveChannel_transfer_or_delete:
  assumes "findChannelById s i = Some ch" and "c_type ch = Public"
    and "user \<in> set (members ch)"
  shows "(created_by ch = user \<and>
            (\<exists>v \<in> set (users s). u_id v \<in> set (members ch) \<and> u_id v \<noteq> user) \<longrightarrow>
          fst (leaveChannel user i s) = Inr LeftChannel \<and>
          (\<exists>ch' owner.
             findChannelById (snd (leaveChannel user i s)) i = Some ch' \<and>
             members ch' = filter (\<lambda>m. m \<noteq> user) (members ch) \<and>
             owner \<in> set (users s) \<and> created_by ch' = u_id owner \<and>
             u_id owner \<in> set (members ch') \<and>
             (\<forall>v \<in> set (users s). u_id v \<in> set (members ch') \<longrightarrow>
                u_created_at owner \<le> u_created_at v))) \<and>
         ((\<forall>m \<in> set (members ch). m = user) \<longrightarrow>
          fst (leaveChannel user i s) = Inr ChannelDeleted \<and>
          (distinct (map c_id (channels s)) \<longrightarrow>
             findChannelById (snd (leaveChannel user i s)) i = None)) \<and>
         (channels_have_members s \<longrightarrow> channels_have_members (run_channel_ops s ops))"
proof (intro conjI impI)
  assume a: "created_by ch = user \<and>
            (\<exists>v \<in> set (users s). u_id v \<in> set (members ch) \<and> u_id v \<noteq> user)"
  then obtain v where v: "v \<in> set (users s)" "u_id v \<in> set (members ch)" "u_id v \<noteq> user"
    by blast
  from assms(1) have idc: "c_id ch = i"
    by (auto simp: findChannelById_def dest: find_Some_P)
  have len: "length (members ch) > 1"
    using two_members_length [OF v(2) assms(3) v(3)] by simp
  from v obtain u where u: "oldestMember s (members ch) user = Some u"
    using oldestMember_None [of s "members ch" user] by (cases "oldestMember s (members ch) user") auto
  note o = oldestMember_Some [OF u]
  let ?c2 = "ch\<lparr>created_by := u_id u, members := filter (\<lambda>m. m \<noteq> user) (members ch)\<rparr>"
  from v have ne: "filter (\<lambda>m. m \<noteq> user) (members ch) \<noteq> []"
    by (auto simp: filter_empty_conv)
  have res: "leaveChannel user i s = (Inr LeftChannel, save_channel ?c2 s)"
    using assms a len u ne by (simp add: leaveChannel_def Let_def)
  then show "fst (leaveChannel user i s) = Inr LeftChannel" by simp
  have "findChannelById (save_channel ?c2 s) i = Some ?c2"
    using assms(1) idc by (simp add: findChannelById_save)
  moreover have "members ?c2 = filter (\<lambda>m. m \<noteq> user) (members ch)" by simp
  moreover have "u \<in> set (users s)" "created_by ?c2 = u_id u" "u_id u \<in> set (members ?c2)"
    using o by simp_all
  moreover have "\<forall>v \<in> set (users s). u_id v \<in> set (members ?c2) \<longrightarrow>
                   u_created_at u \<le> u_created_at v"
    using o by simp
  ultimately show "\<exists>ch' owner.
             findChannelById (snd (leaveChannel user i s)) i = Some ch' \<and>
             members ch' = filter (\<lambda>m. m \<noteq> user) (members ch) \<and>
             owner \<in> set (users s) \<and> created_by ch' = u_id owner \<and>
             u_id owner \<in> set (members ch') \<and>
             (\<forall>v \<in> set (users s). u_id v \<in> set (members ch') \<longrightarrow>
                u_created_at owner \<le> u_created_at v)"
    unfolding res snd_conv by blast
next
  assume a: "\<forall>m \<in> set (members ch). m = user"
  then have e: "filter (\<lambda>m. m \<noteq> user) (members ch) = []"
    by (auto simp: filter_empty_conv)
  have res: "leaveChannel user i s
               = (Inr ChannelDeleted, s\<lparr>channels := delete_first (\<lambda>c. c_id c = i) (channels s)\<rparr>)"
    using assms e by (auto simp: leaveChannel_def Let_def split: option.splits)
  then show "fst (leaveChannel user i s) = Inr ChannelDeleted" by simp
  show "findChannelById (snd (leaveChannel user i s)) i = None"
    if "distinct (map c_id (channels s))"
    using that by (simp add: res findChannelById_def find_delete_first_distinct)
next
  assume "channels_have_members s"
  then show "channels_have_members (run_channel_ops s ops)"
    by (simp add: run_channel_ops_def foldl_channel_ops_keep_members)
qed

theorem leaveChannel_transfer_or_delete_witness:
  "findChannelById team_state 11 = Some team \<and> c_type team = Public \<and>
   1 \<in> set (members team) \<and> created_by team = 1 \<and>
   (\<exists>v \<in> set (users team_state). u_id v \<in> set (members team) \<and> u_id v \<noteq> 1) \<and>
   fst (leaveChannel 1 11 team_state) = Inr LeftChannel \<and>
   map_option created_by (findChannelById (snd (leaveChannel 1 11 team_state)) 11) = Some 3 \<and>
   findChannelById team_state 12 = Some solo \<and> c_type solo = Public \<and>
   2 \<in> set (members solo) \<and> set (members solo) = {2} \<and>
   distinct (map c_id (channels team_state)) \<and>
   fst (leaveChannel 2 12 team_state) = Inr ChannelDeleted \<and>
   findChannelById (snd (leaveChannel 2 12 team_state)) 12 = None \<and>
   channels_have_members team_state \<and>
   channels_have_members
     (run_channel_ops team_state
        [LeaveChannel 1 11, JoinChannel 1 12, LeaveChannel 2 12, LeaveChannel 1 12,
         CreateChannel 5 3 (Some ''random'') None])"
proof -
  have t: "findChannelById team_state 11 = Some team" "c_type team = Public"
    "1 \<in> set (members team)"
    by code_simp+
  have ta: "created_by team = 1 \<and>
            (\<exists>v \<in> set (users team_state). u_id v \<in> set (members team) \<and> u_id v \<noteq> 1)"
    by code_simp
  have so: "findChannelById team_state 12 = Some solo" "c_type solo = Public"
    "2 \<in> set (members solo)"
    by code_simp+
  have sa: "set (members solo) = {2}" "distinct (map c_id (channels team_state))"
    by code_simp+
  then have sb: "\<forall>m \<in> set (members solo). m = 2" by simp
  have inv: "channels_have_members team_state"
    by code_simp
  have owner: "map_option created_by
                 (findChannelById (snd (leaveChannel 1 11 team_state)) 11) = Some 3"
    by code_simp
  note a = leaveChannel_transfer_or_delete
             [OF t, of "[LeaveChannel 1 11, JoinChannel 1 12, LeaveChannel 2 12,
                         LeaveChannel 1 12, CreateChannel 5 3 (Some ''random'') None]"]
  note b = leaveChannel_transfer_or_delete [OF so, of "[]"]
  from a ta have "fst (leaveChannel 1 11 team_state) = Inr LeftChannel" by blast
  moreover from b sa sb have "fst (leaveChannel 2 12 team_state) = Inr ChannelDeleted"
    "findChannelById (snd (leaveChannel 2 12 team_state)) 12 = None"
    by blast+
  moreover from a inv have "channels_have_members
     (run_channel_ops team_state
        [LeaveChannel 1 11, JoinChannel 1 12, LeaveChannel 2 12, LeaveChannel 1 12,
         CreateChannel 5 3 (Some ''random'') None])"
    by blast
  ultimately show ?thesis
    using t ta so sa inv owner by blast
qed

section \<open>Direct channels\<close>

lemma length_hex_digits: "length (hex_digits k n) = k"
  by (induction k arbitrary: n) simp_all

lemma last_hex_digits: "0 < k \<Longrightarrow> last (hex_digits k n) = hex_digit (n mod 16)"
  by (cases k) simp_all

lemma hex_digit_not_space: "d < 16 \<Longrightarrow> \<not> is_js_space (hex_digit d)"
  by (auto simp: hex_digit_def is_js_space_def)

lemma trim_unchanged:
  assumes "t \<noteq> []" "\<not> is_js_space (hd t)" "\<not> is_js_space (last t)"
  shows "trim t = t"
proof -
  from assms(1,2) have a: "dropWhile is_js_space t = t"
    by (cases t) simp_all
  from assms(1) obtain ys y where t: "t = ys @ [y]"
    by (cases t rule: rev_cases) auto
  with assms(3) have "dropWhile is_js_space (rev t) = rev t" by simp
  with a show ?thesis by (simp add: trim_def)
qed

lemma dm_name_length: "length (toLowerCase (trim (dm_name a b))) = 52"
proof -
  have ne: "oid_str b \<noteq> []"
    using length_hex_digits [of 24 b] by (auto simp: oid_str_def)
  then have l: "last (dm_name a b) = hex_digit (b mod 16)"
    by (simp add: dm_name_def oid_str_def last_hex_digits)
  have "\<not> is_js_space (hd (dm_name a b))" by (simp add: dm_name_def is_js_space_def)
  moreover have "\<not> is_js_space (last (dm_name a b))"
    unfolding l by (rule hex_digit_not_space) simp
  moreover have "dm_name a b \<noteq> []" by (simp add: dm_name_def)
  ultimately have "trim (dm_name a b) = dm_name a b" by (intro trim_unchanged)
  then show ?thesis
    by (simp add: toLowerCase_def dm_name_def oid_str_def length_hex_digits)
qed

lemma Channel_create_dm_name:
  "Channel_create now (dm_name a b) ty creator ms s = (Inl ValidationError, s)"
  using dm_name_length [of a b] by (simp add: Channel_create_def Let_def)

lemma createDmChannel_existing:
  "findUserById s other = Some u \<Longrightarrow> findDmChannel s user other = Some c \<Longrightarrow>
   createDmChannel now user other s = (Inr c, s)"
  by (simp add: createDmChannel_def)

lemma createDmChannel_never_creates:
  "findUserById s other = Some u \<Longrightarrow> findDmChannel s user other = None \<Longrightarrow>
   createDmChannel now user other s = (Inl ValidationError, s)"
  by (simp add: createDmChannel_def Channel_create_dm_name)

lemma createDmChannel_state: "snd (createDmChannel now user other s) = s"
  by (simp add: createDmChannel_def Channel_create_dm_name split: option.splits)

lemma findDmChannel_commute: "findDmChannel s a b = findDmChannel s b a"
  by (simp add: findDmChannel_def conj_commute conj_left_commute)

lemma createDmChannel_repeat:
  "createDmChannel now2 user other (snd (createDmChannel now1 user other s))
     = createDmChannel now1 user other s"
  by (simp add: createDmChannel_def Channel_create_dm_name split: option.splits)

text \<open>
  C9, at the input where the code departs from it. Alice asks for the direct channel
  with Bob, an existing user, twice; no such channel exists. The name the controller
  builds for the new channel has 52 characters, the schema allows 50, and
  \<^verbatim>\<open>Channel.create\<close> refuses it: both calls are answered with the validation error and no
  channel is created or returned. (By the lemmas above the lookup does return a channel
  that exists, in either order of the two users, and a new one is never created.)
\<close>

theorem createDmChannel_cannot_create:
  "findUserById state0 2 = Some bob \<and> findDmChannel state0 1 2 = None \<and>
   dm_name 1 2 = ''dm-000000000000000000000001-000000000000000000000002'' \<and>
   length (dm_name 1 2) = 52 \<and>
   createDmChannel 1000 1 2 state0 = (Inl ValidationError, state0) \<and>
   createDmChannel 2000 1 2 (snd (createDmChannel 1000 1 2 state0))
     = (Inl ValidationError, state0)"
  by code_simp

end
